theory Spec2Isabelle
  imports Main "HOL-Library.Sublist"
begin

section \<open>Strings\<close>

text \<open>
  A string is a \<open>char list\<close>: the UTF-8 bytes of the text. The code only compares
  strings for equality and with \<open>includes\<close>, never by length or position, and on
  well-formed text both give the same answer on the bytes as on the code units.
  \<open>includes\<close> (here \<open>str_includes\<close>) looks for the needle at every start position.
\<close>

text \<open>\<open>startsAt s q\<close>: the needle \<open>q\<close> occupies the first \<open>length q\<close> positions of \<open>s\<close>.\<close>

definition startsAt :: "string \<Rightarrow> string \<Rightarrow> bool" where
  "startsAt s q = (take (length q) s = q)"

text \<open>\<open>s.includes(q)\<close>: try start position 0, then 1, ... up to the end of \<open>s\<close>.\<close>

fun str_includes :: "string \<Rightarrow> string \<Rightarrow> bool" where
  "str_includes [] q = (q = [])"
| "str_includes (c # cs) q = (startsAt (c # cs) q \<or> str_includes cs q)"

text \<open>A natural number and an integer printed in decimal.\<close>

definition digit_char :: "nat \<Rightarrow> char" where
  "digit_char d = char_of (48 + d)"

fun digits :: "nat \<Rightarrow> string" where
  "digits n = (if n < 10 then [digit_char n] else digits (n div 10) @ [digit_char (n mod 10)])"

declare digits.simps [simp del]

definition decimal :: "int \<Rightarrow> string" where
  "decimal i = (if i < 0 then CHR ''-'' # digits (nat (- i)) else digits (nat i))"

fun join :: "string \<Rightarrow> string list \<Rightarrow> string" where
  "join sep [] = []"
| "join sep [s] = s"
| "join sep (s # t # ts) = s @ sep @ join sep (t # ts)"


section \<open>Numbers and the runtime\<close>

text \<open>
  A number of the code is a double. \<open>Integer k\<close> stands for the integer \<open>k\<close> when it is
  a safe integer (at most \<open>2^53 - 1\<close> in magnitude): on these the arithmetic the code
  does is exact and is written out below. \<open>Other b\<close> stands for any other double, \<open>b\<close>
  being its 64 bits: a fraction, a large value, an infinity, NaN, minus zero.
\<close>

datatype number = Integer int | Other nat

definition MAX_SAFE_INTEGER :: int where
  "MAX_SAFE_INTEGER = 9007199254740991"

text \<open>The safe integer a number stands for, if it stands for one.\<close>

definition safe_integer :: "number \<Rightarrow> int option" where
  "safe_integer n =
     (case n of
        Integer k \<Rightarrow> if - MAX_SAFE_INTEGER \<le> k \<and> k \<le> MAX_SAFE_INTEGER then Some k else None
      | Other b \<Rightarrow> None)"

text \<open>The result of the abstract operation \<open>ToIntegerOrInfinity\<close>.\<close>

datatype integer_or_infinity = MinusInfinity | Finite int | PlusInfinity

text \<open>
  JSON values as \<open>JSON.parse\<close> produces them. \<open>JObj\<close> lists the properties of the
  object in the order \<open>Object.entries\<close> reports them.
\<close>

datatype json =
  JNull
| JBool bool
| JNum number
| JStr string
| JArr "json list"
| JObj "(string \<times> json) list"

text \<open>
  What the code asks of the JavaScript runtime and what is not written out here is a
  parameter: lower-casing of text that is not plain ASCII; printing, truncating, adding
  and testing numbers that are not safe integers; and the indexed characters of a string.
\<close>

record runtime =
  Unicode_toLowerCase :: "string \<Rightarrow> string"
  Number_toString :: "number \<Rightarrow> string"
  ToIntegerOrInfinity :: "number \<Rightarrow> integer_or_infinity"
  Number_add :: "number \<Rightarrow> number \<Rightarrow> number"
  Number_ToBoolean :: "number \<Rightarrow> bool"
  String_entries :: "string \<Rightarrow> (string \<times> json) list"

text \<open>
  \<open>s.toLowerCase()\<close>. On plain ASCII text it maps \<open>A..Z\<close> to \<open>a..z\<close> and leaves every
  other character alone; on any other text it is the runtime's.
\<close>

definition lower_char :: "char \<Rightarrow> char" where
  "lower_char c =
     (let n = (of_char c :: nat) in if 65 \<le> n \<and> n \<le> 90 then char_of (n + 32) else c)"

definition is_ascii :: "string \<Rightarrow> bool" where
  "is_ascii s = list_all (\<lambda>c. (of_char c :: nat) < 128) s"

definition toLowerCase :: "'a runtime_scheme \<Rightarrow> string \<Rightarrow> string" where
  "toLowerCase rt s = (if is_ascii s then map lower_char s else Unicode_toLowerCase rt s)"

text \<open>\<open>n.toString()\<close> and \<open>String(n)\<close>: a safe integer prints in decimal.\<close>

definition number_toString :: "'a runtime_scheme \<Rightarrow> number \<Rightarrow> string" where
  "number_toString rt n =
     (case safe_integer n of Some k \<Rightarrow> decimal k | None \<Rightarrow> Number_toString rt n)"

definition to_integer :: "'a runtime_scheme \<Rightarrow> number \<Rightarrow> integer_or_infinity" where
  "to_integer rt n =
     (case safe_integer n of Some k \<Rightarrow> Finite k | None \<Rightarrow> ToIntegerOrInfinity rt n)"

text \<open>\<open>a + b\<close>: exact when both are safe integers and so is the sum.\<close>

definition number_add :: "'a runtime_scheme \<Rightarrow> number \<Rightarrow> number \<Rightarrow> number" where
  "number_add rt a b =
     (case (safe_integer a, safe_integer b) of
        (Some x, Some y) \<Rightarrow>
          if safe_integer (Integer (x + y)) = Some (x + y) then Integer (x + y)
          else Number_add rt a b
      | _ \<Rightarrow> Number_add rt a b)"

definition number_truthy :: "'a runtime_scheme \<Rightarrow> number \<Rightarrow> bool" where
  "number_truthy rt n =
     (case safe_integer n of Some k \<Rightarrow> k \<noteq> 0 | None \<Rightarrow> Number_ToBoolean rt n)"


section \<open>The dataset index\<close>

text \<open>
  \<open>interface Dataset\<close>: \<open>category\<close> and \<open>keywords\<close> are optional. Every field carries
  the prefix \<open>ds_\<close> here (\<open>id\<close> is \<open>ds_id\<close>, and so on). The list and search tools copy every
  record and add a \<open>source\<close> field; that is the record extension \<open>tagged\<close>.
\<close>

record dataset =
  ds_id :: string
  ds_name :: string
  ds_description :: string
  ds_category :: "string option"
  ds_keywords :: "string list option"

record tagged = dataset +
  source :: string

record datasets_index =
  opendosm :: "dataset list"
  data_catalogue :: "dataset list"

text \<open>\<open>{ ...d, source: s }\<close>\<close>

definition tag :: "string \<Rightarrow> dataset \<Rightarrow> tagged" where
  "tag s d = \<lparr>ds_id = ds_id d, ds_name = ds_name d, ds_description = ds_description d,
              ds_category = ds_category d, ds_keywords = ds_keywords d, source = s\<rparr>"

text \<open>
  JavaScript truthiness of an optional string argument: \<open>undefined\<close> and the empty string
  are falsy.
\<close>

definition truthy :: "string option \<Rightarrow> bool" where
  "truthy a = (case a of None \<Rightarrow> False | Some s \<Rightarrow> s \<noteq> [])"

text \<open>
  The candidate sequence both tools start from: two guarded \<open>push(...)\<close> calls, the
  \<open>opendosm\<close> one first.
\<close>

definition collect :: "datasets_index \<Rightarrow> string option \<Rightarrow> tagged list" where
  "collect idx src =
     (let datasets = [];
          datasets = (if \<not> truthy src \<or> src = Some ''opendosm''
                      then datasets @ map (tag ''opendosm'') (opendosm idx) else datasets);
          datasets = (if \<not> truthy src \<or> src = Some ''data_catalogue''
                      then datasets @ map (tag ''data_catalogue'') (data_catalogue idx)
                      else datasets)
      in datasets)"


section \<open>Search scoring\<close>

text \<open>
  The keyword loop of \<open>search_datasets\<close>, with the running \<open>score\<close> as accumulator.
  \<open>dataset.keywords || []\<close> turns a missing keyword list into the empty one. A score
  is a sum of the constants 10 to 100, an integer.
\<close>

fun keyword_loop :: "'a runtime_scheme \<Rightarrow> string \<Rightarrow> string list \<Rightarrow> int \<Rightarrow> int" where
  "keyword_loop rt queryLower [] score = score"
| "keyword_loop rt queryLower (keyword # rest) score =
     keyword_loop rt queryLower rest
       (if queryLower = toLowerCase rt keyword then score + 40
        else if str_includes (toLowerCase rt keyword) queryLower then score + 20
        else score)"

definition keywords_or_empty :: "'a dataset_scheme \<Rightarrow> string list" where
  "keywords_or_empty d = (case ds_keywords d of None \<Rightarrow> [] | Some ks \<Rightarrow> ks)"

text \<open>The body of the \<open>for (const dataset of datasets)\<close> loop up to the final test.\<close>

definition score_of :: "'a runtime_scheme \<Rightarrow> string \<Rightarrow> 'b dataset_scheme \<Rightarrow> int" where
  "score_of rt queryLower d =
     (let score = 0;
          score = (if queryLower = toLowerCase rt (ds_id d) then score + 100
                   else if str_includes (toLowerCase rt (ds_id d)) queryLower then score + 50
                   else score);
          score = (if str_includes (toLowerCase rt (ds_name d)) queryLower then score + 30
                   else score);
          score = (if str_includes (toLowerCase rt (ds_description d)) queryLower
                   then score + 10 else score)
      in keyword_loop rt queryLower (keywords_or_empty d) score)"

text \<open>\<open>scoredDatasets\<close>: the pairs pushed by the loop, in the order met.\<close>

fun score_loop :: "'a runtime_scheme \<Rightarrow> string \<Rightarrow> tagged list \<Rightarrow> (int \<times> tagged) list" where
  "score_loop rt queryLower [] = []"
| "score_loop rt queryLower (d # ds) =
     (let score = score_of rt queryLower d
      in if score > 0 then (score, d) # score_loop rt queryLower ds
         else score_loop rt queryLower ds)"


section \<open>Sorting and slicing\<close>

text \<open>
  \<open>Array.prototype.sort(cmp)\<close> is a stable sort. For a comparator that orders by a key, as
  here, the result of a stable sort is unique, so insertion sort stands for it: an element
  goes in front of the first element it does not have to follow.
\<close>

fun insert_cmp :: "('a \<Rightarrow> 'a \<Rightarrow> int) \<Rightarrow> 'a \<Rightarrow> 'a list \<Rightarrow> 'a list" where
  "insert_cmp cmp x [] = [x]"
| "insert_cmp cmp x (y # ys) =
     (if cmp x y \<le> 0 then x # y # ys else y # insert_cmp cmp x ys)"

definition array_sort :: "('a \<Rightarrow> 'a \<Rightarrow> int) \<Rightarrow> 'a list \<Rightarrow> 'a list" where
  "array_sort cmp xs = foldr (insert_cmp cmp) xs []"

text \<open>The comparator \<open>(a, b) => b[0] - a[0]\<close>.\<close>

definition by_score_desc :: "(int \<times> 'a) \<Rightarrow> (int \<times> 'a) \<Rightarrow> int" where
  "by_score_desc a b = fst b - fst a"

text \<open>
  \<open>Array.prototype.slice(start, end)\<close>: each argument goes through
  \<open>ToIntegerOrInfinity\<close>; a negative index counts from the end, both are clamped to the
  array, and an empty range gives the empty array.
\<close>

definition relative_index :: "integer_or_infinity \<Rightarrow> nat \<Rightarrow> nat" where
  "relative_index i len =
     (case i of
        MinusInfinity \<Rightarrow> 0
      | Finite k \<Rightarrow> if k < 0 then nat (max (int len + k) 0) else min (nat k) len
      | PlusInfinity \<Rightarrow> len)"

definition slice :: "'b runtime_scheme \<Rightarrow> 'a list \<Rightarrow> number \<Rightarrow> number \<Rightarrow> 'a list" where
  "slice rt xs start stop =
     (let k = relative_index (to_integer rt start) (length xs);
          final = relative_index (to_integer rt stop) (length xs)
      in take (final - k) (drop k xs))"


section \<open>Tool arguments\<close>

text \<open>The \<open>arguments\<close> object of a tool call. Optional properties are \<open>option\<close>s.\<close>

record tool_args =
  arg_dataset_id :: string
  arg_filters :: "string option"
  arg_limit :: "number option"
  arg_offset :: "number option"
  arg_source :: "string option"
  arg_category :: "string option"
  arg_query :: string

definition or_default :: "'a option \<Rightarrow> 'a \<Rightarrow> 'a" where
  "or_default a d = (case a of None \<Rightarrow> d | Some v \<Rightarrow> v)"


section \<open>search_datasets\<close>

record search_result =
  sr_query :: string
  sr_count :: nat
  sr_datasets :: "tagged list"

definition scoredDatasets ::
  "'a runtime_scheme \<Rightarrow> datasets_index \<Rightarrow> tool_args \<Rightarrow> (int \<times> tagged) list" where
  "scoredDatasets rt idx args =
     score_loop rt (toLowerCase rt (arg_query args)) (collect idx (arg_source args))"

definition search_datasets ::
  "'a runtime_scheme \<Rightarrow> datasets_index \<Rightarrow> tool_args \<Rightarrow> search_result" where
  "search_datasets rt idx args =
     (let limit = or_default (arg_limit args) (Integer 10);
          sorted = array_sort by_score_desc (scoredDatasets rt idx args);
          results = map snd (slice rt sorted (Integer 0) limit)
      in \<lparr>sr_query = arg_query args, sr_count = length results, sr_datasets = results\<rparr>)"


section \<open>list_datasets\<close>

record list_result =
  lr_total :: nat
  lr_limit :: number
  lr_offset :: number
  lr_count :: nat
  lr_datasets :: "tagged list"

text \<open>\<open>d.category?.toLowerCase() === category.toLowerCase()\<close>\<close>

definition category_matches :: "'a runtime_scheme \<Rightarrow> string \<Rightarrow> 'b dataset_scheme \<Rightarrow> bool" where
  "category_matches rt cat d =
     (case ds_category d of
        None \<Rightarrow> False
      | Some c \<Rightarrow> toLowerCase rt c = toLowerCase rt cat)"

text \<open>\<open>if (category) { datasets = datasets.filter(...) }\<close>\<close>

definition filter_category ::
  "'a runtime_scheme \<Rightarrow> string option \<Rightarrow> tagged list \<Rightarrow> tagged list" where
  "filter_category rt cat datasets =
     (case cat of
        None \<Rightarrow> datasets
      | Some c \<Rightarrow> if c \<noteq> [] then filter (category_matches rt c) datasets else datasets)"

definition list_datasets ::
  "'a runtime_scheme \<Rightarrow> datasets_index \<Rightarrow> tool_args \<Rightarrow> list_result" where
  "list_datasets rt idx args =
     (let limit = or_default (arg_limit args) (Integer 100);
          offset = or_default (arg_offset args) (Integer 0);
          datasets = collect idx (arg_source args);
          datasets = filter_category rt (arg_category args) datasets;
          total = length datasets;
          paginatedDatasets = slice rt datasets offset (number_add rt offset limit)
      in \<lparr>lr_total = total, lr_limit = limit, lr_offset = offset,
          lr_count = length paginatedDatasets, lr_datasets = paginatedDatasets\<rparr>)"


section \<open>The API client\<close>

text \<open>
  \<open>String(value)\<close>: an array prints its elements joined by commas, with \<open>null\<close>
  elements printed as nothing; an object prints as \<open>[object Object]\<close>.
\<close>

fun String_of :: "'a runtime_scheme \<Rightarrow> json \<Rightarrow> string" where
  "String_of rt JNull = ''null''"
| "String_of rt (JBool b) = (if b then ''true'' else ''false'')"
| "String_of rt (JNum n) = number_toString rt n"
| "String_of rt (JStr s) = s"
| "String_of rt (JArr xs) =
     join '','' (map (\<lambda>x. if x = JNull then [] else String_of rt x) xs)"
| "String_of rt (JObj kvs) = ''[object Object]''"

definition json_truthy :: "'a runtime_scheme \<Rightarrow> json \<Rightarrow> bool" where
  "json_truthy rt v =
     (case v of JNull \<Rightarrow> False | JBool b \<Rightarrow> b | JNum n \<Rightarrow> number_truthy rt n
      | JStr s \<Rightarrow> s \<noteq> [] | JArr xs \<Rightarrow> True | JObj kvs \<Rightarrow> True)"

text \<open>
  \<open>Object.entries(value)\<close>: the properties of an object; the indexed elements of an
  array; the indexed characters of a string; nothing for a number or a boolean.
\<close>

definition object_entries :: "'a runtime_scheme \<Rightarrow> json \<Rightarrow> (string \<times> json) list" where
  "object_entries rt v =
     (case v of
        JObj kvs \<Rightarrow> kvs
      | JArr xs \<Rightarrow> zip (map digits [0 ..< length xs]) xs
      | JStr s \<Rightarrow> String_entries rt s
      | _ \<Rightarrow> [])"

record query_options =
  filters :: "json option"
  limit :: "number option"
  offset :: "number option"
  metaOnly :: "bool option"

text \<open>
  \<open>URLSearchParams\<close> is its list of name/value pairs; \<open>append\<close> adds a pair at the end.
\<close>

type_synonym search_params = "(string \<times> string) list"

definition append_param :: "search_params \<Rightarrow> string \<Rightarrow> string \<Rightarrow> search_params" where
  "append_param params k v = params @ [(k, v)]"

text \<open>\<open>Object.entries(filters).forEach(([key, value]) => params.append(key, String(value)))\<close>\<close>

fun append_filters ::
  "'a runtime_scheme \<Rightarrow> search_params \<Rightarrow> (string \<times> json) list \<Rightarrow> search_params" where
  "append_filters rt params [] = params"
| "append_filters rt params ((key, v) # rest) =
     append_filters rt (append_param params key (String_of rt v)) rest"

text \<open>The part of both query methods that fills \<open>params\<close>.\<close>

definition build_params :: "'a runtime_scheme \<Rightarrow> string \<Rightarrow> query_options \<Rightarrow> search_params" where
  "build_params rt datasetId options =
     (let limit_v = or_default (limit options) (Integer 100);
          offset_v = or_default (offset options) (Integer 0);
          metaOnly_v = or_default (metaOnly options) False;
          params = [(''id'', datasetId)];
          params = (if metaOnly_v then append_param params ''meta_only'' ''true''
                    else append_param
                           (append_param params ''limit'' (number_toString rt limit_v))
                           ''offset'' (number_toString rt offset_v))
      in case filters options of
           None \<Rightarrow> params
         | Some f \<Rightarrow>
             if json_truthy rt f then append_filters rt params (object_entries rt f)
             else params)"

text \<open>
  \<open>params.toString()\<close>: the \<open>application/x-www-form-urlencoded\<close> serialisation. Letters,
  digits and \<open>* - . _\<close> stand for themselves, a space becomes \<open>+\<close>, every other byte is
  percent-encoded.
\<close>

definition hex_digit :: "nat \<Rightarrow> char" where
  "hex_digit d = (if d < 10 then char_of (48 + d) else char_of (55 + d))"

definition urlencode_char :: "char \<Rightarrow> string" where
  "urlencode_char c =
     (let n = (of_char c :: nat)
      in if (48 \<le> n \<and> n \<le> 57) \<or> (65 \<le> n \<and> n \<le> 90) \<or> (97 \<le> n \<and> n \<le> 122)
            \<or> n = 42 \<or> n = 45 \<or> n = 46 \<or> n = 95 then [c]
         else if n = 32 then ''+''
         else [CHR ''%'', hex_digit (n div 16), hex_digit (n mod 16)])"

definition urlencode :: "string \<Rightarrow> string" where
  "urlencode s = concat (map urlencode_char s)"

definition params_toString :: "search_params \<Rightarrow> string" where
  "params_toString params = join ''&'' (map (\<lambda>(k, v). urlencode k @ ''='' @ urlencode v) params)"

text \<open>
  The network. A \<open>fetch\<close> either rejects or resolves to a response; \<open>response.json()\<close>
  either rejects or yields the parsed body. \<open>response.status\<close> is a small natural
  number and \<open>response.ok\<close> is true for a status in 200..299. The upstream is a function
  of the number of requests made so far and the URL.
\<close>

datatype error = Error (message: string)

record response =
  status :: nat
  statusText :: string
  body :: "error + json"

datatype fetch_outcome = Rejected error | Responded response

definition ok :: "response \<Rightarrow> bool" where
  "ok r = (200 \<le> status r \<and> status r \<le> 299)"

type_synonym upstream = "nat \<Rightarrow> string \<Rightarrow> fetch_outcome"

text \<open>
  The world a tool call runs in: the runtime, the upstream, and \<open>JSON.parse\<close>.
\<close>

record world = runtime +
  net :: upstream
  JSON_parse :: "string \<Rightarrow> error + json"

text \<open>
  The client object: whether \<open>abortController\<close> is set, and (for the proofs) the URLs it
  has requested, oldest first.
\<close>

record client =
  abortController :: bool
  requests :: "string list"

definition OPENDOSM_BASE_URL :: string where
  "OPENDOSM_BASE_URL = ''https://api.data.gov.my/opendosm''"

definition DATA_CATALOGUE_BASE_URL :: string where
  "DATA_CATALOGUE_BASE_URL = ''https://api.data.gov.my/data-catalogue''"

text \<open>
  \<open>queryOpenDOSM\<close> and \<open>queryDataCatalogue\<close> have the same body but for the base URL and
  the label in the error message; \<open>query_api\<close> is that body.
\<close>

definition query_api ::
  "string \<Rightarrow> string \<Rightarrow> world \<Rightarrow> client \<Rightarrow> string \<Rightarrow> query_options \<Rightarrow> (error + json) \<times> client"
where
  "query_api base label w c datasetId options =
     (let params = build_params w datasetId options;
          url = base @ ''?'' @ params_toString params;
          c' = \<lparr>abortController = True, requests = requests c @ [url]\<rparr>
      in case net w (length (requests c)) url of
           Rejected e \<Rightarrow> (Inl e, c')
         | Responded r \<Rightarrow>
             if \<not> ok r
             then (Inl (Error (label @ '' API error: '' @ digits (status r)
                                @ '' '' @ statusText r)), c')
             else (body r, c'))"

definition queryOpenDOSM ::
  "world \<Rightarrow> client \<Rightarrow> string \<Rightarrow> query_options \<Rightarrow> (error + json) \<times> client" where
  "queryOpenDOSM = query_api OPENDOSM_BASE_URL ''OpenDOSM''"

definition queryDataCatalogue ::
  "world \<Rightarrow> client \<Rightarrow> string \<Rightarrow> query_options \<Rightarrow> (error + json) \<times> client" where
  "queryDataCatalogue = query_api DATA_CATALOGUE_BASE_URL ''Data Catalogue''"

definition no_options :: query_options where
  "no_options = \<lparr>filters = None, limit = None, offset = None, metaOnly = None\<rparr>"

text \<open>\<open>close()\<close> aborts the pending request, if any, and drops the controller.\<close>

definition close :: "client \<Rightarrow> client" where
  "close c = (if abortController c then c\<lparr>abortController := False\<rparr> else c)"


section \<open>The tool handler\<close>

text \<open>
  What \<open>get_dataset_schema\<close> reports as \<open>info\<close>: the record of the index, or the object
  \<open>{ id: dataset_id, name: "Unknown" }\<close>.
\<close>

datatype info = Indexed dataset | Minimal string string

record schema_result =
  sc_dataset_id :: string
  sc_source :: "string option"
  sc_info :: info
  sc_metadata :: json
  sc_sample_data :: json

text \<open>
  The object a tool hands to \<open>JSON.stringify\<close> for its text content. The last case is the
  object built in the \<open>catch\<close> block: \<open>error\<close>, \<open>tool\<close>, \<open>arguments\<close>.
\<close>

datatype payload =
  Data json
| Listing list_result
| Found search_result
| Schema schema_result
| Failure string string tool_args

record tool_response =
  content :: payload
  isError :: bool

definition invalid_source :: error where
  "invalid_source =
     Error (''Invalid source. Must be 'opendosm' or 'data_catalogue'' @ [CHR 0x27])"

text \<open>\<open>filters ? JSON.parse(filters) : undefined\<close>\<close>

definition parse_filters :: "world \<Rightarrow> string option \<Rightarrow> error + json option" where
  "parse_filters w f =
     (if truthy f
      then (case JSON_parse w (or_default f []) of Inl e \<Rightarrow> Inl e | Inr j \<Rightarrow> Inr (Some j))
      else Inr None)"

text \<open>
  The cases \<open>query_opendosm\<close> and \<open>query_data_catalogue\<close> differ in the client method
  they call, here the argument \<open>api\<close>.
\<close>

definition query_tool ::
  "(world \<Rightarrow> client \<Rightarrow> string \<Rightarrow> query_options \<Rightarrow> (error + json) \<times> client) \<Rightarrow>
   world \<Rightarrow> client \<Rightarrow> tool_args \<Rightarrow> (error + payload) \<times> client" where
  "query_tool api w c args =
     (case parse_filters w (arg_filters args) of
        Inl e \<Rightarrow> (Inl e, c)
      | Inr filterDict \<Rightarrow>
          (case api w c (arg_dataset_id args)
                  \<lparr>filters = filterDict,
                   limit = Some (or_default (arg_limit args) (Integer 100)),
                   offset = Some (or_default (arg_offset args) (Integer 0)),
                   metaOnly = None\<rparr> of
             (Inl e, c') \<Rightarrow> (Inl e, c')
           | (Inr data, c') \<Rightarrow> (Inr (Data data), c')))"

definition get_dataset_metadata ::
  "world \<Rightarrow> client \<Rightarrow> tool_args \<Rightarrow> (error + payload) \<times> client" where
  "get_dataset_metadata w c args =
     (if arg_source args = Some ''opendosm''
      then (case queryOpenDOSM w c (arg_dataset_id args)
                   (no_options\<lparr>metaOnly := Some True\<rparr>) of
              (Inl e, c') \<Rightarrow> (Inl e, c')
            | (Inr data, c') \<Rightarrow> (Inr (Data data), c'))
      else if arg_source args = Some ''data_catalogue''
      then (case queryDataCatalogue w c (arg_dataset_id args)
                   (no_options\<lparr>metaOnly := Some True\<rparr>) of
              (Inl e, c') \<Rightarrow> (Inl e, c')
            | (Inr data, c') \<Rightarrow> (Inr (Data data), c'))
      else (Inl invalid_source, c))"

text \<open>The three steps of \<open>get_dataset_schema\<close>, in the order of the source.\<close>

definition lookup_info :: "datasets_index \<Rightarrow> tool_args \<Rightarrow> dataset option" where
  "lookup_info idx args =
     (let sourceKey = (if arg_source args = Some ''opendosm'' then opendosm else data_catalogue)
      in find (\<lambda>ds. ds_id ds = arg_dataset_id args) (sourceKey idx))"

definition fetch_metadata :: "world \<Rightarrow> client \<Rightarrow> tool_args \<Rightarrow> (error + json) \<times> client" where
  "fetch_metadata w c args =
     (if arg_source args = Some ''opendosm''
      then queryOpenDOSM w c (arg_dataset_id args) (no_options\<lparr>metaOnly := Some True\<rparr>)
      else if arg_source args = Some ''data_catalogue''
      then queryDataCatalogue w c (arg_dataset_id args) (no_options\<lparr>metaOnly := Some True\<rparr>)
      else (Inl invalid_source, c))"

definition fetch_sample :: "world \<Rightarrow> client \<Rightarrow> tool_args \<Rightarrow> (error + json) \<times> client" where
  "fetch_sample w c args =
     (if arg_source args = Some ''opendosm''
      then queryOpenDOSM w c (arg_dataset_id args) (no_options\<lparr>limit := Some (Integer 3)\<rparr>)
      else queryDataCatalogue w c (arg_dataset_id args)
             (no_options\<lparr>limit := Some (Integer 3)\<rparr>))"

definition get_dataset_schema ::
  "world \<Rightarrow> datasets_index \<Rightarrow> client \<Rightarrow> tool_args \<Rightarrow> (error + payload) \<times> client" where
  "get_dataset_schema w idx c args =
     (let datasetInfo = lookup_info idx args
      in case fetch_metadata w c args of
           (Inl e, c') \<Rightarrow> (Inl e, c')
         | (Inr metadata, c') \<Rightarrow>
             (case fetch_sample w c' args of
                (Inl e, c'') \<Rightarrow> (Inl e, c'')
              | (Inr sampleData, c'') \<Rightarrow>
                  (Inr (Schema
                     \<lparr>sc_dataset_id = arg_dataset_id args, sc_source = arg_source args,
                      sc_info = (case datasetInfo of
                                   Some d \<Rightarrow> Indexed d
                                 | None \<Rightarrow> Minimal (arg_dataset_id args) ''Unknown''),
                      sc_metadata = metadata, sc_sample_data = sampleData\<rparr>), c'')))"

text \<open>The \<open>switch (name)\<close> inside the \<open>try\<close> block; a \<open>throw\<close> is an \<open>Inl\<close>.\<close>

definition handle_tool ::
  "world \<Rightarrow> datasets_index \<Rightarrow> client \<Rightarrow> string \<Rightarrow> tool_args \<Rightarrow> (error + payload) \<times> client"
where
  "handle_tool w idx c name args =
     (if name = ''query_opendosm'' then query_tool queryOpenDOSM w c args
      else if name = ''query_data_catalogue'' then query_tool queryDataCatalogue w c args
      else if name = ''get_dataset_metadata'' then get_dataset_metadata w c args
      else if name = ''list_datasets'' then (Inr (Listing (list_datasets w idx args)), c)
      else if name = ''search_datasets'' then (Inr (Found (search_datasets w idx args)), c)
      else if name = ''get_dataset_schema'' then get_dataset_schema w idx c args
      else (Inl (Error (''Unknown tool: '' @ name)), c))"

text \<open>The handler itself: the \<open>try\<close> block and its \<open>catch\<close>.\<close>

definition call_tool ::
  "world \<Rightarrow> datasets_index \<Rightarrow> client \<Rightarrow> string \<Rightarrow> tool_args \<Rightarrow> tool_response \<times> client"
where
  "call_tool w idx c name args =
     (case handle_tool w idx c name args of
        (Inr p, c') \<Rightarrow> (\<lparr>content = p, isError = False\<rparr>, c')
      | (Inl e, c') \<Rightarrow> (\<lparr>content = Failure (message e) name args, isError = True\<rparr>, c'))"


section \<open>The scoring rule as the specification words it\<close>

text \<open>
  The reference the code is compared with. Comparisons are case-insensitive: both sides
  are lower-cased. "Contains as a substring" is: some text before, the query, some text
  after.
\<close>

definition ci_equals :: "'a runtime_scheme \<Rightarrow> string \<Rightarrow> string \<Rightarrow> bool" where
  "ci_equals rt a b = (toLowerCase rt a = toLowerCase rt b)"

definition ci_contains :: "'a runtime_scheme \<Rightarrow> string \<Rightarrow> string \<Rightarrow> bool" where
  "ci_contains rt s q =
     (\<exists>before after. toLowerCase rt s = before @ toLowerCase rt q @ after)"

definition keyword_points :: "'a runtime_scheme \<Rightarrow> string \<Rightarrow> string \<Rightarrow> int" where
  "keyword_points rt query keyword =
     (if ci_equals rt keyword query then 40
      else if ci_contains rt keyword query then 20 else 0)"

definition reference_score :: "'a runtime_scheme \<Rightarrow> string \<Rightarrow> 'b dataset_scheme \<Rightarrow> int" where
  "reference_score rt query d =
     (if ci_equals rt (ds_id d) query then 100
      else if ci_contains rt (ds_id d) query then 50 else 0)
     + (if ci_contains rt (ds_name d) query then 30 else 0)
     + (if ci_contains rt (ds_description d) query then 10 else 0)
     + (\<Sum>keyword \<leftarrow> (case ds_keywords d of None \<Rightarrow> [] | Some ks \<Rightarrow> ks).
          keyword_points rt query keyword)"

text \<open>The whole ranking, before \<open>slice(0, limit)\<close> cuts it.\<close>

definition ranked :: "'a runtime_scheme \<Rightarrow> datasets_index \<Rightarrow> tool_args \<Rightarrow> tagged list" where
  "ranked rt idx args = map snd (array_sort by_score_desc (scoredDatasets rt idx args))"

text \<open>
  The score of a record splits into what its id earns and what its name, description and
  keywords earn.
\<close>

definition id_points :: "'a runtime_scheme \<Rightarrow> string \<Rightarrow> 'b dataset_scheme \<Rightarrow> int" where
  "id_points rt queryLower d =
     (if queryLower = toLowerCase rt (ds_id d) then 100
      else if str_includes (toLowerCase rt (ds_id d)) queryLower then 50
      else 0)"

definition other_points :: "'a runtime_scheme \<Rightarrow> string \<Rightarrow> 'b dataset_scheme \<Rightarrow> int" where
  "other_points rt queryLower d =
     keyword_loop rt queryLower (keywords_or_empty d)
       ((if str_includes (toLowerCase rt (ds_name d)) queryLower then 30 else 0)
        + (if str_includes (toLowerCase rt (ds_description d)) queryLower then 10 else 0))"


text \<open>The names the \<open>switch\<close> of the handler has a case for.\<close>

definition known_tool :: "string \<Rightarrow> bool" where
  "known_tool name \<longleftrightarrow>
     name \<in> {''query_opendosm'', ''query_data_catalogue'', ''get_dataset_metadata'',
             ''list_datasets'', ''search_datasets'', ''get_dataset_schema''}"

text \<open>A \<open>data_catalogue\<close> record standing before an \<open>opendosm\<close> record.\<close>

definition misplaced :: "tagged \<Rightarrow> tagged \<Rightarrow> bool" where
  "misplaced a b \<longleftrightarrow> source a = ''data_catalogue'' \<and> source b = ''opendosm''"

text \<open>The limit of a search and the limit and offset of a listing, with their defaults.\<close>

definition search_limit :: "tool_args \<Rightarrow> number" where
  "search_limit args = or_default (arg_limit args) (Integer 10)"

definition list_limit :: "tool_args \<Rightarrow> number" where
  "list_limit args = or_default (arg_limit args) (Integer 100)"

definition list_offset :: "tool_args \<Rightarrow> number" where
  "list_offset args = or_default (arg_offset args) (Integer 0)"


section \<open>Example data\<close>

text \<open>
  A runtime to run the tools on concrete inputs. Its lower-casing knows the capital
  letters of the Latin-1 supplement (two UTF-8 bytes, the first \<open>0xC3\<close>); the parts the
  examples do not reach are filled in arbitrarily.
\<close>

fun latin_lower :: "string \<Rightarrow> string" where
  "latin_lower (a # b # cs) =
     (if (of_char a :: nat) = 195 \<and> 128 \<le> (of_char b :: nat) \<and> (of_char b :: nat) \<le> 158
         \<and> (of_char b :: nat) \<noteq> 151
      then a # char_of ((of_char b :: nat) + 32) # latin_lower cs
      else lower_char a # latin_lower (b # cs))"
| "latin_lower [a] = [lower_char a]"
| "latin_lower [] = []"

definition node :: runtime where
  "node = \<lparr>Unicode_toLowerCase = latin_lower,
           Number_toString = (\<lambda>n. ''NaN''),
           ToIntegerOrInfinity = (\<lambda>n. Finite 0),
           Number_add = (\<lambda>a b. Other 0),
           Number_ToBoolean = (\<lambda>n. False),
           String_entries = (\<lambda>s. [])\<rparr>"

definition on_node :: "upstream \<Rightarrow> world" where
  "on_node up =
     \<lparr>Unicode_toLowerCase = Unicode_toLowerCase node,
      Number_toString = Number_toString node,
      ToIntegerOrInfinity = ToIntegerOrInfinity node,
      Number_add = Number_add node,
      Number_ToBoolean = Number_ToBoolean node,
      String_entries = String_entries node,
      net = up,
      JSON_parse = (\<lambda>s. Inl (Error ''SyntaxError''))\<rparr>"

text \<open>A small index and argument objects.\<close>

definition cpi_core :: dataset where
  "cpi_core = \<lparr>ds_id = ''cpi_core'', ds_name = ''Core CPI'',
                ds_description = ''Core consumer price index'',
                ds_category = Some ''Prices'', ds_keywords = Some [''inflation'']\<rparr>"

definition cpi_index :: datasets_index where
  "cpi_index = \<lparr>opendosm = [cpi_core], data_catalogue = []\<rparr>"

text \<open>
  Text beyond ASCII: the capital letter E with an acute accent is the two bytes
  \<open>C3 89\<close>, the small letter the two bytes \<open>C3 A9\<close>. The record has the capital
  letter in its name and as its keyword.
\<close>

definition e_acute_capital :: string where
  "e_acute_capital = [CHR 0xC3, CHR 0x89]"

definition e_acute_small :: string where
  "e_acute_small = [CHR 0xC3, CHR 0xA9]"

definition cafe :: dataset where
  "cafe = \<lparr>ds_id = ''cafe'', ds_name = ''CAF'' @ e_acute_capital @ '' MENU'',
            ds_description = ''Menu'', ds_category = None,
            ds_keywords = Some [e_acute_capital]\<rparr>"

definition cafe_index :: datasets_index where
  "cafe_index = \<lparr>opendosm = [cafe], data_catalogue = []\<rparr>"

definition search_args :: "string \<Rightarrow> string option \<Rightarrow> number option \<Rightarrow> tool_args" where
  "search_args q src lim =
     \<lparr>arg_dataset_id = [], arg_filters = None, arg_limit = lim, arg_offset = None,
      arg_source = src, arg_category = None, arg_query = q\<rparr>"

definition gdp :: dataset where
  "gdp = \<lparr>ds_id = ''gdp'', ds_name = ''Gross domestic product'',
           ds_description = ''National accounts'', ds_category = Some ''Economy'',
           ds_keywords = None\<rparr>"

definition gdp_qtr :: dataset where
  "gdp_qtr = \<lparr>ds_id = ''gdp_qtr'', ds_name = ''Gross domestic product'',
           ds_description = ''National accounts'', ds_category = Some ''Economy'',
           ds_keywords = None\<rparr>"

definition gdp_index :: datasets_index where
  "gdp_index = \<lparr>opendosm = [gdp_qtr, gdp], data_catalogue = [gdp_qtr]\<rparr>"

definition gdp_qtr_rich :: dataset where
  "gdp_qtr_rich = \<lparr>ds_id = ''gdp_qtr'', ds_name = ''Quarterly GDP'',
           ds_description = ''GDP by quarter'', ds_category = Some ''Economy'',
           ds_keywords = Some [''gdp'']\<rparr>"

definition rich_index :: datasets_index where
  "rich_index = \<lparr>opendosm = [gdp, gdp_qtr_rich], data_catalogue = []\<rparr>"

definition list_args ::
  "string option \<Rightarrow> string option \<Rightarrow> number option \<Rightarrow> number option \<Rightarrow> tool_args" where
  "list_args src cat lim off =
     \<lparr>arg_dataset_id = [], arg_filters = None, arg_limit = lim, arg_offset = off,
      arg_source = src, arg_category = cat, arg_query = []\<rparr>"

definition fuelprice :: dataset where
  "fuelprice = \<lparr>ds_id = ''fuelprice'', ds_name = ''Fuel prices'',
                 ds_description = ''Weekly retail fuel prices'',
                 ds_category = Some ''prices'', ds_keywords = Some [''petrol'', ''diesel'']\<rparr>"

definition uncategorised :: dataset where
  "uncategorised = \<lparr>ds_id = ''misc'', ds_name = ''Miscellaneous'',
                 ds_description = ''No category'', ds_category = None, ds_keywords = None\<rparr>"

definition mixed_index :: datasets_index where
  "mixed_index = \<lparr>opendosm = [cpi_core, gdp, uncategorised], data_catalogue = [fuelprice]\<rparr>"

definition new_client :: client where
  "new_client = \<lparr>abortController = False, requests = []\<rparr>"



definition not_found :: response where
  "not_found = \<lparr>status = 404, statusText = ''Not Found'', body = Inl (Error ''Unexpected token'')\<rparr>"

definition ok_response :: "json \<Rightarrow> response" where
  "ok_response j = \<lparr>status = 200, statusText = ''OK'', body = Inr j\<rparr>"

text \<open>
  An upstream that cannot be reached, one that knows no dataset, and one that answers the
  first request with metadata and every later one with rows.
\<close>

definition quiet_world :: world where
  "quiet_world = on_node (\<lambda>n url. Rejected (Error ''offline''))"

definition failing_world :: world where
  "failing_world = on_node (\<lambda>n url. Responded not_found)"

definition serving_world :: world where
  "serving_world =
     on_node (\<lambda>n url. Responded (ok_response
               (if n = 0 then JObj [(''frequency'', JStr ''WEEKLY'')]
                else JArr [JObj [(''ron95'', JNum (Integer 2))]])))"

definition id_args :: "string \<Rightarrow> string option \<Rightarrow> tool_args" where
  "id_args i src =
     \<lparr>arg_dataset_id = i, arg_filters = None, arg_limit = None, arg_offset = None,
      arg_source = src, arg_category = None, arg_query = []\<rparr>"


section \<open>Facts about the string functions\<close>

lemma toLowerCase_empty: "toLowerCase rt [] = []"
  by (simp add: toLowerCase_def is_ascii_def)

lemma startsAt_prefix: "startsAt s q \<longleftrightarrow> prefix q s"
proof
  assume "startsAt s q"
  then have "s = q @ drop (length q) s"
    unfolding startsAt_def by (metis append_take_drop_id)
  then show "prefix q s" by (metis prefixI)
next
  assume "prefix q s"
  then obtain zs where "s = q @ zs" by (auto simp: prefix_def)
  then show "startsAt s q" by (simp add: startsAt_def)
qed

lemma str_includes_sublist: "str_includes s q \<longleftrightarrow> sublist q s"
  by (induction s) (simp_all add: startsAt_prefix sublist_Cons_right)

lemma str_includes_ci_contains:
  "str_includes (toLowerCase rt s) (toLowerCase rt q) \<longleftrightarrow> ci_contains rt s q"
  by (simp add: str_includes_sublist sublist_def ci_contains_def)

lemma str_includes_empty: "str_includes s []"
  by (simp add: str_includes_sublist)


section \<open>The score of a record\<close>

lemma keyword_loop_sum:
  "keyword_loop rt (toLowerCase rt query) ks acc =
     acc + (\<Sum>keyword \<leftarrow> ks. keyword_points rt query keyword)"
proof (induction ks arbitrary: acc)
  case Nil
  show ?case by simp
next
  case (Cons k ks)
  have step: "(if toLowerCase rt query = toLowerCase rt k then acc + 40
        else if str_includes (toLowerCase rt k) (toLowerCase rt query) then acc + 20
        else acc) = acc + keyword_points rt query k"
    by (auto simp: keyword_points_def ci_equals_def str_includes_ci_contains)
  show ?case
    by (simp only: keyword_loop.simps step Cons.IH list.map sum_list.Cons add.assoc)
qed

lemma score_of_reference: "score_of rt (toLowerCase rt query) d = reference_score rt query d"
proof -
  have eq: "(toLowerCase rt query = toLowerCase rt (ds_id d)) = ci_equals rt (ds_id d) query"
    by (auto simp: ci_equals_def)
  show ?thesis
    unfolding score_of_def reference_score_def Let_def keywords_or_empty_def
      keyword_loop_sum str_includes_ci_contains eq
    by simp
qed

lemma keyword_points_nonneg: "0 \<le> keyword_points rt query k"
  by (simp add: keyword_points_def)

lemma reference_score_nonneg: "0 \<le> reference_score rt query d"
  unfolding reference_score_def
  by (intro add_nonneg_nonneg sum_list_nonneg) (auto simp: keyword_points_nonneg)

lemma score_loop_filter:
  "score_loop rt queryLower ds =
     map (\<lambda>d. (score_of rt queryLower d, d)) (filter (\<lambda>d. 0 < score_of rt queryLower d) ds)"
  by (induction ds) (simp_all add: Let_def)


section \<open>Facts about sorting and slicing\<close>

lemma set_insert_cmp: "set (insert_cmp cmp x ys) = insert x (set ys)"
  by (induction ys) auto

lemma set_array_sort: "set (array_sort cmp xs) = set xs"
  unfolding array_sort_def by (induction xs) (simp_all add: set_insert_cmp)

lemma length_array_sort: "length (array_sort cmp xs) = length xs"
proof -
  have "length (insert_cmp cmp x ys) = Suc (length ys)" for x ys
    by (induction ys) auto
  then show ?thesis unfolding array_sort_def by (induction xs) simp_all
qed

lemma insert_cmp_desc:
  "sorted_wrt (\<lambda>a b. fst b \<le> fst a) ys \<Longrightarrow>
   sorted_wrt (\<lambda>a b. fst b \<le> fst a) (insert_cmp by_score_desc x ys)"
  by (induction ys) (auto simp: by_score_desc_def set_insert_cmp)

lemma array_sort_desc: "sorted_wrt (\<lambda>a b. fst b \<le> fst a) (array_sort by_score_desc xs)"
  unfolding array_sort_def by (induction xs) (simp_all add: insert_cmp_desc)

text \<open>Stability: the elements of one score keep their order.\<close>

lemma filter_insert_cmp:
  "filter (\<lambda>p. fst p = k) (insert_cmp by_score_desc x ys) = filter (\<lambda>p. fst p = k) (x # ys)"
  by (induction ys) (auto simp: by_score_desc_def)

lemma array_sort_stable:
  "filter (\<lambda>p. fst p = k) (array_sort by_score_desc xs) = filter (\<lambda>p. fst p = k) xs"
  unfolding array_sort_def by (induction xs) (simp_all add: filter_insert_cmp)

text \<open>
  An order between elements that only constrains elements of equal score survives the
  sort.
\<close>

lemma insert_cmp_keeps:
  assumes "sorted_wrt R ys" and "\<forall>y\<in>set ys. R x y" and "\<forall>y. fst y \<noteq> fst x \<longrightarrow> R y x"
  shows "sorted_wrt R (insert_cmp by_score_desc x ys)"
  using assms by (induction ys) (auto simp: by_score_desc_def set_insert_cmp)

lemma array_sort_keeps:
  assumes "sorted_wrt R xs" and "\<forall>a b. fst a \<noteq> fst b \<longrightarrow> R a b"
  shows "sorted_wrt R (array_sort by_score_desc xs)"
  using assms
proof (induction xs)
  case Nil
  show ?case by (simp add: array_sort_def)
next
  case (Cons x xs)
  have rest: "sorted_wrt R (array_sort by_score_desc xs)"
    using Cons by simp
  have after: "\<forall>y\<in>set (array_sort by_score_desc xs). R x y"
    using Cons.prems(1) by (simp add: set_array_sort)
  have before: "\<forall>y. fst y \<noteq> fst x \<longrightarrow> R y x"
    using Cons.prems(2) by blast
  have "sorted_wrt R (insert_cmp by_score_desc x (array_sort by_score_desc xs))"
    using rest after before by (rule insert_cmp_keeps)
  then show ?case by (simp add: array_sort_def)
qed

text \<open>Numbers that stand for safe integers, and slices by them.\<close>

lemma safe_integer_Integer:
  "- MAX_SAFE_INTEGER \<le> k \<Longrightarrow> k \<le> MAX_SAFE_INTEGER \<Longrightarrow> safe_integer (Integer k) = Some k"
  by (simp add: safe_integer_def)

lemma safe_integer_small: "\<bar>k\<bar> \<le> 1000 \<Longrightarrow> safe_integer (Integer k) = Some k"
  by (auto simp: safe_integer_def MAX_SAFE_INTEGER_def)

lemma to_integer_safe: "safe_integer n = Some k \<Longrightarrow> to_integer rt n = Finite k"
  by (simp add: to_integer_def)

lemma number_toString_safe: "safe_integer n = Some k \<Longrightarrow> number_toString rt n = decimal k"
  by (simp add: number_toString_def)

lemma number_add_safe:
  "safe_integer a = Some x \<Longrightarrow> safe_integer b = Some y \<Longrightarrow>
   safe_integer (Integer (x + y)) = Some (x + y) \<Longrightarrow>
   number_add rt a b = Integer (x + y)"
  by (simp add: number_add_def)

lemma relative_index_nonneg: "0 \<le> l \<Longrightarrow> relative_index (Finite l) n = min (nat l) n"
  by (simp add: relative_index_def)

lemma relative_index_neg: "l < 0 \<Longrightarrow> relative_index (Finite l) n = n - nat (- l)"
  by (auto simp: relative_index_def)

lemma relative_index_le: "relative_index i n \<le> n"
  by (auto simp: relative_index_def split: integer_or_infinity.splits)

lemma slice_take_drop:
  "slice rt xs a b =
     take (relative_index (to_integer rt b) (length xs)
             - relative_index (to_integer rt a) (length xs))
       (drop (relative_index (to_integer rt a) (length xs)) xs)"
  by (simp add: slice_def Let_def)

lemma slice_from_0:
  "slice rt xs (Integer 0) l = take (relative_index (to_integer rt l) (length xs)) xs"
  by (simp add: slice_take_drop to_integer_safe [OF safe_integer_small] relative_index_def)

lemma slice_nonneg:
  assumes "to_integer rt a = Finite off" and "to_integer rt b = Finite (off + lim)"
    and "0 \<le> off" and "0 \<le> lim"
  shows "slice rt xs a b = take (nat lim) (drop (nat off) xs)"
  using assms
  by (auto simp: slice_take_drop relative_index_def min_def nat_add_distrib)

text \<open>The list \<open>search_datasets\<close> returns is a prefix of the whole ranking.\<close>

lemma search_datasets_take:
  "sr_datasets (search_datasets rt idx args) =
     take (relative_index (to_integer rt (search_limit args)) (length (ranked rt idx args)))
       (ranked rt idx args)"
  by (simp add: search_datasets_def ranked_def search_limit_def Let_def slice_from_0 take_map)

lemma scoredDatasets_map:
  "scoredDatasets rt idx args =
     map (\<lambda>d. (score_of rt (toLowerCase rt (arg_query args)) d, d))
       (filter (\<lambda>d. 0 < score_of rt (toLowerCase rt (arg_query args)) d)
          (collect idx (arg_source args)))"
  by (simp add: scoredDatasets_def score_loop_filter)

lemma set_ranked:
  "set (ranked rt idx args) =
     {r \<in> set (collect idx (arg_source args)). 0 < score_of rt (toLowerCase rt (arg_query args)) r}"
  unfolding ranked_def by (force simp: set_array_sort scoredDatasets_map)

lemma scored_fst:
  "p \<in> set (array_sort by_score_desc (scoredDatasets rt idx args)) \<Longrightarrow>
   fst p = score_of rt (toLowerCase rt (arg_query args)) (snd p)"
  by (auto simp: set_array_sort scoredDatasets_map)

lemma ranked_sorted:
  "sorted_wrt (\<lambda>a b. score_of rt (toLowerCase rt (arg_query args)) b
                     \<le> score_of rt (toLowerCase rt (arg_query args)) a) (ranked rt idx args)"
proof -
  let ?s = "array_sort by_score_desc (scoredDatasets rt idx args)"
  have "sorted_wrt (\<lambda>a b. fst b \<le> fst a) ?s"
    by (rule array_sort_desc)
  then have "sorted_wrt (\<lambda>a b. score_of rt (toLowerCase rt (arg_query args)) (snd b)
                     \<le> score_of rt (toLowerCase rt (arg_query args)) (snd a)) ?s"
    by (rule sorted_wrt_mono_rel [rotated]) (simp add: scored_fst)
  then show ?thesis
    by (simp add: ranked_def sorted_wrt_map)
qed

lemma ranked_stable:
  assumes "0 < k"
  shows "filter (\<lambda>d. score_of rt (toLowerCase rt (arg_query args)) d = k) (ranked rt idx args) =
         filter (\<lambda>d. score_of rt (toLowerCase rt (arg_query args)) d = k) (collect idx (arg_source args))"
proof -
  let ?q = "toLowerCase rt (arg_query args)"
  let ?s = "array_sort by_score_desc (scoredDatasets rt idx args)"
  have "filter (\<lambda>d. score_of rt ?q d = k) (ranked rt idx args) =
        map snd (filter (\<lambda>p. score_of rt ?q (snd p) = k) ?s)"
    by (simp add: ranked_def filter_map comp_def)
  also have "filter (\<lambda>p. score_of rt ?q (snd p) = k) ?s = filter (\<lambda>p. fst p = k) ?s"
    by (rule filter_cong) (simp_all add: scored_fst)
  also have "\<dots> = filter (\<lambda>p. fst p = k) (scoredDatasets rt idx args)"
    by (rule array_sort_stable)
  also have "map snd \<dots> = filter (\<lambda>d. score_of rt ?q d = k)
                 (filter (\<lambda>d. 0 < score_of rt ?q d) (collect idx (arg_source args)))"
    by (simp add: scoredDatasets_map filter_map comp_def)
  also have "\<dots> = filter (\<lambda>d. score_of rt ?q d = k) (collect idx (arg_source args))"
    using assms by (auto intro: filter_cong)
  finally show ?thesis .
qed

lemma ranked_positive:
  "r \<in> set (ranked rt idx args) \<Longrightarrow> 0 < score_of rt (toLowerCase rt (arg_query args)) r"
  by (simp add: set_ranked)

lemma keyword_loop_shift: "keyword_loop rt q ks (a + b) = a + keyword_loop rt q ks b"
proof (induction ks arbitrary: b)
  case Nil
  show ?case by simp
next
  case (Cons k ks)
  have step: "(if q = toLowerCase rt k then a + b + 40
               else if str_includes (toLowerCase rt k) q then a + b + 20 else a + b) =
              a + (if q = toLowerCase rt k then b + 40
                   else if str_includes (toLowerCase rt k) q then b + 20 else b)"
    by simp
  show ?case
    by (simp only: keyword_loop.simps step Cons.IH)
qed

lemma score_of_split: "score_of rt q d = id_points rt q d + other_points rt q d"
proof -
  have "score_of rt q d =
      keyword_loop rt q (keywords_or_empty d)
        (id_points rt q d
         + ((if str_includes (toLowerCase rt (ds_name d)) q then 30 else 0)
            + (if str_includes (toLowerCase rt (ds_description d)) q then 10 else 0)))"
    unfolding score_of_def id_points_def Let_def by simp
  also have "\<dots> = id_points rt q d + other_points rt q d"
    by (simp only: keyword_loop_shift other_points_def)
  finally show ?thesis .
qed

lemma sorted_desc_before:
  assumes "sorted_wrt (\<lambda>a b. f b \<le> f a) xs" and "f p < (f e :: int)"
    and "i < length xs" and "j < length xs" and "xs ! i = e" and "xs ! j = p"
  shows "i < j"
proof (rule ccontr)
  assume "\<not> i < j"
  then consider "i = j" | "j < i" by linarith
  then show False
  proof cases
    case 1
    with assms show False by simp
  next
    case 2
    with assms(1,3) have "f (xs ! i) \<le> f (xs ! j)"
      by (simp add: sorted_wrt_iff_nth_less)
    with assms show False by simp
  qed
qed


section \<open>Facts about listing\<close>

lemma filter_category_absent:
  "\<not> truthy cat \<Longrightarrow> filter_category rt cat ds = ds"
  by (auto simp: filter_category_def truthy_def split: option.splits)

lemma category_matches_iff:
  "category_matches rt c d \<longleftrightarrow> (\<exists>c'. ds_category d = Some c' \<and> ci_equals rt c' c)"
  by (auto simp: category_matches_def ci_equals_def split: option.splits)

lemma list_datasets_page:
  "lr_datasets (list_datasets rt idx args) =
     slice rt (filter_category rt (arg_category args) (collect idx (arg_source args)))
       (list_offset args) (number_add rt (list_offset args) (list_limit args))"
  by (simp add: list_datasets_def Let_def list_offset_def list_limit_def)

lemma slice_beyond:
  assumes "to_integer rt a = Finite off" and "int (length xs) \<le> off"
  shows "slice rt xs a b = []"
  using assms by (auto simp: slice_take_drop relative_index_def)


section \<open>Facts about the client\<close>

lemma append_filters_map:
  "append_filters rt params kvs = params @ map (\<lambda>(k, v). (k, String_of rt v)) kvs"
  by (induction kvs arbitrary: params) (auto simp: append_param_def)



lemma number_toString_small:
  "number_toString rt (Integer 0) = ''0''" "number_toString rt (Integer 3) = ''3''"
  "number_toString rt (Integer 100) = ''100''"
proof -
  have "decimal 0 = ''0''" "decimal 3 = ''3''" "decimal 100 = ''100''"
    by code_simp+
  then show "number_toString rt (Integer 0) = ''0''" "number_toString rt (Integer 3) = ''3''"
    "number_toString rt (Integer 100) = ''100''"
    by (simp_all add: number_toString_safe [OF safe_integer_small])
qed

lemma build_params_closed:
  "build_params rt datasetId options =
     (''id'', datasetId) #
     (if or_default (metaOnly options) False then [(''meta_only'', ''true'')]
      else [(''limit'', number_toString rt (or_default (limit options) (Integer 100))),
            (''offset'', number_toString rt (or_default (offset options) (Integer 0)))])
     @ map (\<lambda>(k, v). (k, String_of rt v))
         (case filters options of
            None \<Rightarrow> []
          | Some f \<Rightarrow> if json_truthy rt f then object_entries rt f else [])"
  by (simp add: build_params_def Let_def append_param_def append_filters_map
        split: option.splits)

lemma query_api_requests:
  "requests (snd (query_api base label w c datasetId options)) =
     requests c @ [base @ ''?'' @ params_toString (build_params w datasetId options)]"
  by (simp add: query_api_def Let_def split: fetch_outcome.splits)

lemma query_api_responded:
  assumes "net w (length (requests c))
             (base @ ''?'' @ params_toString (build_params w datasetId options))
             = Responded r"
  shows "query_api base label w c datasetId options =
           (if ok r then body r
            else Inl (Error (label @ '' API error: '' @ digits (status r)
                              @ '' '' @ statusText r)),
            \<lparr>abortController = True,
             requests = requests c
               @ [base @ ''?'' @ params_toString (build_params w datasetId options)]\<rparr>)"
  using assms by (simp add: query_api_def Let_def)

lemma build_params_meta:
  "build_params rt i (no_options\<lparr>metaOnly := Some True\<rparr>) = [(''id'', i), (''meta_only'', ''true'')]"
  by (simp add: build_params_closed no_options_def or_default_def)

lemma build_params_sample:
  "build_params rt i (no_options\<lparr>limit := Some (Integer 3)\<rparr>) =
     [(''id'', i), (''limit'', ''3''), (''offset'', ''0'')]"
  by (simp add: build_params_closed no_options_def or_default_def number_toString_small)


section \<open>Facts about the handler\<close>

lemma query_api_length:
  "length (requests (snd (query_api base label w c datasetId options))) =
     Suc (length (requests c))"
  by (simp add: query_api_requests)

lemma queryOpenDOSM_length:
  "length (requests (snd (queryOpenDOSM w c datasetId options))) = Suc (length (requests c))"
  by (simp add: queryOpenDOSM_def query_api_length)

lemma queryDataCatalogue_length:
  "length (requests (snd (queryDataCatalogue w c datasetId options))) =
     Suc (length (requests c))"
  by (simp add: queryDataCatalogue_def query_api_length)

lemma query_tool_length:
  assumes "\<And>w c i opts. length (requests (snd (api w c i opts))) = Suc (length (requests c))"
  shows "length (requests (snd (query_tool api w c args))) \<le> Suc (length (requests c))"
proof (cases "parse_filters w (arg_filters args)")
  case (Inl e)
  then show ?thesis by (simp add: query_tool_def)
next
  case (Inr f)
  let ?r = "api w c (arg_dataset_id args)
              \<lparr>filters = f, limit = Some (or_default (arg_limit args) (Integer 100)),
               offset = Some (or_default (arg_offset args) (Integer 0)), metaOnly = None\<rparr>"
  have "snd (query_tool api w c args) = snd ?r"
    using Inr by (simp add: query_tool_def split: prod.splits sum.splits)
  then show ?thesis by (simp add: assms)
qed

lemma fetch_metadata_length:
  "length (requests (snd (fetch_metadata w c args))) \<le> Suc (length (requests c))"
  by (simp add: fetch_metadata_def queryOpenDOSM_length queryDataCatalogue_length)

lemma fetch_sample_length:
  "length (requests (snd (fetch_sample w c args))) = Suc (length (requests c))"
  by (simp add: fetch_sample_def queryOpenDOSM_length queryDataCatalogue_length)

lemma get_dataset_metadata_length:
  "length (requests (snd (get_dataset_metadata w c args))) \<le> Suc (length (requests c))"
proof -
  have "snd (get_dataset_metadata w c args) = snd (fetch_metadata w c args)"
    by (simp add: get_dataset_metadata_def fetch_metadata_def split: prod.splits sum.splits)
  then show ?thesis by (simp add: fetch_metadata_length)
qed

lemma get_dataset_schema_length:
  "length (requests (snd (get_dataset_schema w idx c args))) \<le> length (requests c) + 2"
proof (cases "fetch_metadata w c args")
  case (Pair r c1)
  have c1: "length (requests c1) \<le> Suc (length (requests c))"
    using fetch_metadata_length [of w c args] Pair by simp
  show ?thesis
  proof (cases r)
    case (Inl e)
    with Pair c1 show ?thesis by (simp add: get_dataset_schema_def)
  next
    case (Inr m)
    have "snd (get_dataset_schema w idx c args) = snd (fetch_sample w c1 args)"
      using Pair Inr by (simp add: get_dataset_schema_def split: prod.splits sum.splits)
    then show ?thesis
      using c1 by (simp add: fetch_sample_length)
  qed
qed

lemma handle_tool_length:
  "length (requests (snd (handle_tool w idx c name args)))
     \<le> length (requests c) + (if name = ''get_dataset_schema'' then 2 else 1)"
proof -
  have q1: "length (requests (snd (query_tool queryOpenDOSM w c args))) \<le> Suc (length (requests c))"
    by (rule query_tool_length) (rule queryOpenDOSM_length)
  have q2: "length (requests (snd (query_tool queryDataCatalogue w c args)))
              \<le> Suc (length (requests c))"
    by (rule query_tool_length) (rule queryDataCatalogue_length)
  show ?thesis
    using q1 q2 get_dataset_metadata_length [of w c args] get_dataset_schema_length [of w idx c args]
    by (simp add: handle_tool_def)
qed

lemma snd_call_tool: "snd (call_tool w idx c name args) = snd (handle_tool w idx c name args)"
  by (simp add: call_tool_def split: prod.splits sum.splits)

lemma invalid_source_names:
  "str_includes (message invalid_source) (CHR 0x27 # ''opendosm'' @ [CHR 0x27])
   \<and> str_includes (message invalid_source) (CHR 0x27 # ''data_catalogue'' @ [CHR 0x27])"
  by code_simp


section \<open>Facts about the order of the sources\<close>

lemma source_tag: "source (tag s d) = s"
  by (simp add: tag_def)

lemma sorted_wrt_all: "(\<And>a b. a \<in> set xs \<Longrightarrow> b \<in> set xs \<Longrightarrow> R a b) \<Longrightarrow> sorted_wrt R xs"
  by (induction xs) auto

lemma collect_unfiltered:
  "\<not> truthy src \<Longrightarrow>
   collect idx src =
     map (tag ''opendosm'') (opendosm idx) @ map (tag ''data_catalogue'') (data_catalogue idx)"
  by (simp add: collect_def)

lemma collect_in_order:
  "sorted_wrt (\<lambda>a b. \<not> misplaced a b) (collect idx src)"
proof -
  have od: "sorted_wrt (\<lambda>a b. \<not> misplaced a b) (map (tag ''opendosm'') xs)" for xs
    by (rule sorted_wrt_all) (auto simp: misplaced_def source_tag)
  have dc: "sorted_wrt (\<lambda>a b. \<not> misplaced a b) (map (tag ''data_catalogue'') xs)" for xs
    by (rule sorted_wrt_all) (auto simp: misplaced_def source_tag)
  have both: "sorted_wrt (\<lambda>a b. \<not> misplaced a b)
      (map (tag ''opendosm'') xs @ map (tag ''data_catalogue'') ys)" for xs ys
    using od [of xs] dc [of ys]
    by (auto simp: sorted_wrt_append misplaced_def source_tag)
  show ?thesis
    unfolding collect_def Let_def
    using od dc both by (simp del: sorted_wrt_map)
qed


lemma filter_category_in_order:
  "sorted_wrt R ds \<Longrightarrow> sorted_wrt R (filter_category rt cat ds)"
  by (auto simp: filter_category_def sorted_wrt_filter split: option.splits)

lemma list_in_order:
  "sorted_wrt (\<lambda>a b. \<not> misplaced a b) (lr_datasets (list_datasets rt idx args))"
proof -
  have "sorted_wrt (\<lambda>a b. \<not> misplaced a b)
          (filter_category rt (arg_category args) (collect idx (arg_source args)))"
    by (intro filter_category_in_order collect_in_order)
  then show ?thesis
    by (simp add: list_datasets_def Let_def slice_take_drop sorted_wrt_take sorted_wrt_drop)
qed

lemma search_in_order:
  "sorted_wrt (\<lambda>a b. score_of rt (toLowerCase rt (arg_query args)) a
                       = score_of rt (toLowerCase rt (arg_query args)) b \<longrightarrow> \<not> misplaced a b)
     (sr_datasets (search_datasets rt idx args))"
proof -
  let ?q = "toLowerCase rt (arg_query args)"
  let ?R = "\<lambda>p1 p2. fst p1 = fst p2 \<longrightarrow> \<not> misplaced (snd p1) (snd p2)"
  let ?s = "array_sort by_score_desc (scoredDatasets rt idx args)"
  have "sorted_wrt (\<lambda>a b. \<not> misplaced a b)
          (filter (\<lambda>d. 0 < score_of rt ?q d) (collect idx (arg_source args)))"
    by (intro sorted_wrt_filter collect_in_order)
  then have "sorted_wrt (\<lambda>a b. score_of rt ?q a = score_of rt ?q b \<longrightarrow> \<not> misplaced a b)
          (filter (\<lambda>d. 0 < score_of rt ?q d) (collect idx (arg_source args)))"
    by (rule sorted_wrt_mono_rel [rotated]) simp
  then have "sorted_wrt ?R (scoredDatasets rt idx args)"
    by (simp add: scoredDatasets_map sorted_wrt_map)
  then have "sorted_wrt ?R ?s"
    by (rule array_sort_keeps) simp
  then have "sorted_wrt (\<lambda>p1 p2. score_of rt ?q (snd p1) = score_of rt ?q (snd p2)
                          \<longrightarrow> \<not> misplaced (snd p1) (snd p2)) ?s"
    by (rule sorted_wrt_mono_rel [rotated]) (simp add: scored_fst)
  then have "sorted_wrt (\<lambda>a b. score_of rt ?q a = score_of rt ?q b \<longrightarrow> \<not> misplaced a b)
               (ranked rt idx args)"
    by (simp add: ranked_def sorted_wrt_map)
  then show ?thesis
    unfolding search_datasets_take by (rule sorted_wrt_take)
qed

lemma keyword_loop_grows: "acc \<le> keyword_loop rt q ks acc"
proof (induction ks arbitrary: acc)
  case Nil
  show ?case by simp
next
  case (Cons k ks)
  have "acc \<le> (if q = toLowerCase rt k then acc + 40
                else if str_includes (toLowerCase rt k) q then acc + 20 else acc)"
    by simp
  also have "\<dots> \<le> keyword_loop rt q (k # ks) acc"
    unfolding keyword_loop.simps by (rule Cons.IH)
  finally show ?case .
qed

lemma score_of_empty_query: "90 \<le> score_of rt [] d"
proof -
  have "50 \<le> id_points rt [] d"
    by (simp add: id_points_def str_includes_empty)
  moreover have "40 \<le> other_points rt [] d"
    using keyword_loop_grows [of 40 rt "[]" "keywords_or_empty d"]
    by (simp add: other_points_def str_includes_empty)
  ultimately show ?thesis
    by (simp add: score_of_split)
qed


section \<open>Claims about search\<close>

text \<open>
  C1. The score the search loop computes for a record is the reference score: 100 for an
  id equal to the query, else 50 for an id containing it; 30 for a name containing it; 10
  for a description containing it; and, summed over the keywords, 40 for a keyword equal
  to it, else 20 for a keyword containing it, all case-insensitive, that is after
  lower-casing both sides as the runtime does. The loop keeps, in the order met and
  paired with that score, exactly the candidates whose score is not 0, and no record
  with score 0 is returned.
\<close>

theorem search_score_is_reference:
  "score_of rt (toLowerCase rt query) d = reference_score rt query d
   \<and> scoredDatasets rt idx args =
       map (\<lambda>d. (reference_score rt (arg_query args) d, d))
         (filter (\<lambda>d. reference_score rt (arg_query args) d \<noteq> 0) (collect idx (arg_source args)))
   \<and> (\<forall>r \<in> set (sr_datasets (search_datasets rt idx args)).
         r \<in> set (collect idx (arg_source args)) \<and> reference_score rt (arg_query args) r \<noteq> 0)"
proof -
  let ?q = "arg_query args"
  let ?cands = "collect idx (arg_source args)"
  have pos: "(0 < reference_score rt ?q r) = (reference_score rt ?q r \<noteq> 0)" for r :: tagged
    using reference_score_nonneg [of rt ?q r] by linarith
  have scored: "scoredDatasets rt idx args =
       map (\<lambda>d. (reference_score rt ?q d, d)) (filter (\<lambda>d. reference_score rt ?q d \<noteq> 0) ?cands)"
    by (simp add: scoredDatasets_map score_of_reference pos)
  have "set (sr_datasets (search_datasets rt idx args)) \<subseteq> set (ranked rt idx args)"
    unfolding search_datasets_take by (rule set_take_subset)
  also have "\<dots> = {r \<in> set ?cands. reference_score rt ?q r \<noteq> 0}"
    by (simp add: set_ranked score_of_reference pos)
  finally have "set (sr_datasets (search_datasets rt idx args))
      \<subseteq> {r \<in> set ?cands. reference_score rt ?q r \<noteq> 0}" .
  then show ?thesis
    using score_of_reference [of rt query d] scored by blast
qed

theorem search_score_is_reference_witness:
  "reference_score node ''Inflation'' (tag ''opendosm'' cpi_core) = 40
   \<and> scoredDatasets node cpi_index (search_args ''Inflation'' None None) =
       [(40, tag ''opendosm'' cpi_core)]
   \<and> reference_score node e_acute_small (tag ''opendosm'' cafe) = 70
   \<and> scoredDatasets node cafe_index (search_args e_acute_small None None) =
       [(70, tag ''opendosm'' cafe)]"
proof -
  have run: "score_of node (toLowerCase node ''Inflation'') (tag ''opendosm'' cpi_core) = 40"
    by code_simp
  have run': "score_of node (toLowerCase node e_acute_small) (tag ''opendosm'' cafe) = 70"
    by code_simp
  have c1: "collect cpi_index (arg_source (search_args ''Inflation'' None None)) =
              [tag ''opendosm'' cpi_core]"
    by code_simp
  have c2: "collect cafe_index (arg_source (search_args e_acute_small None None)) =
              [tag ''opendosm'' cafe]"
    by code_simp
  have q1: "arg_query (search_args ''Inflation'' None None) = ''Inflation''"
    by code_simp
  have q2: "arg_query (search_args e_acute_small None None) = e_acute_small"
    by code_simp
  note a = search_score_is_reference
             [of node "''Inflation''" "tag ''opendosm'' cpi_core" cpi_index
                 "search_args ''Inflation'' None None"]
  note b = search_score_is_reference
             [of node e_acute_small "tag ''opendosm'' cafe" cafe_index
                 "search_args e_acute_small None None"]
  from a run have r1: "reference_score node ''Inflation'' (tag ''opendosm'' cpi_core) = 40"
    by simp
  from b run' have r2: "reference_score node e_acute_small (tag ''opendosm'' cafe) = 70"
    by simp
  from a have "scoredDatasets node cpi_index (search_args ''Inflation'' None None) =
       [(40, tag ''opendosm'' cpi_core)]"
    unfolding c1 q1 by (simp add: r1)
  moreover from b have "scoredDatasets node cafe_index (search_args e_acute_small None None) =
       [(70, tag ''opendosm'' cafe)]"
    unfolding c2 q2 by (simp add: r2)
  ultimately show ?thesis
    using r1 r2 by blast
qed


text \<open>
  C2 (amended in its last part). For every limit, the records returned are in order of
  non-increasing score; among the records of any one score, those returned are the first
  of the candidates with that score, in the order of the candidate sequence; the whole
  ranking is sorted and keeps, for each score, exactly the candidates of that score in
  their order; and the result is a prefix of the ranking. With \<open>l\<close> the limit cut to an
  integer (a missing limit is 10): for \<open>l\<close> not negative the result is the first \<open>l\<close>
  records of the ranking, so at most \<open>l\<close> records; for \<open>l\<close> negative it is the ranking
  without its last \<open>-l\<close> records; for an infinite limit it is the whole ranking or
  nothing.
\<close>

theorem search_sorted_stable_truncated:
  "sorted_wrt (\<lambda>a b. score_of rt (toLowerCase rt (arg_query args)) b
                      \<le> score_of rt (toLowerCase rt (arg_query args)) a)
     (sr_datasets (search_datasets rt idx args))
   \<and> (\<forall>k. prefix (filter (\<lambda>d. score_of rt (toLowerCase rt (arg_query args)) d = k)
                    (sr_datasets (search_datasets rt idx args)))
                  (filter (\<lambda>d. score_of rt (toLowerCase rt (arg_query args)) d = k)
                    (collect idx (arg_source args))))
   \<and> sorted_wrt (\<lambda>a b. score_of rt (toLowerCase rt (arg_query args)) b
                      \<le> score_of rt (toLowerCase rt (arg_query args)) a) (ranked rt idx args)
   \<and> (\<forall>k>0. filter (\<lambda>d. score_of rt (toLowerCase rt (arg_query args)) d = k)
               (ranked rt idx args) =
             filter (\<lambda>d. score_of rt (toLowerCase rt (arg_query args)) d = k)
               (collect idx (arg_source args)))
   \<and> prefix (sr_datasets (search_datasets rt idx args)) (ranked rt idx args)
   \<and> sr_count (search_datasets rt idx args) = length (sr_datasets (search_datasets rt idx args))
   \<and> (\<forall>l. to_integer rt (or_default (arg_limit args) (Integer 10)) = Finite l \<and> 0 \<le> l \<longrightarrow>
         sr_datasets (search_datasets rt idx args) = take (nat l) (ranked rt idx args)
         \<and> int (length (sr_datasets (search_datasets rt idx args))) \<le> l)
   \<and> (\<forall>l. to_integer rt (or_default (arg_limit args) (Integer 10)) = Finite l \<and> l < 0 \<longrightarrow>
         sr_datasets (search_datasets rt idx args) =
           take (length (ranked rt idx args) - nat (- l)) (ranked rt idx args))
   \<and> (to_integer rt (or_default (arg_limit args) (Integer 10)) = PlusInfinity \<longrightarrow>
         sr_datasets (search_datasets rt idx args) = ranked rt idx args)
   \<and> (to_integer rt (or_default (arg_limit args) (Integer 10)) = MinusInfinity \<longrightarrow>
         sr_datasets (search_datasets rt idx args) = [])
   \<and> (\<forall>l. or_default (arg_limit args) (Integer 10) = Integer l
           \<and> - MAX_SAFE_INTEGER \<le> l \<and> l \<le> MAX_SAFE_INTEGER \<longrightarrow>
         to_integer rt (or_default (arg_limit args) (Integer 10)) = Finite l)"
proof -
  let ?q = "toLowerCase rt (arg_query args)"
  let ?lim = "or_default (arg_limit args) (Integer 10)"
  let ?res = "sr_datasets (search_datasets rt idx args)"
  let ?n = "relative_index (to_integer rt ?lim) (length (ranked rt idx args))"
  have res: "?res = take ?n (ranked rt idx args)"
    using search_datasets_take [of rt idx args] by (simp add: search_limit_def)
  have sorted_res: "sorted_wrt (\<lambda>a b. score_of rt ?q b \<le> score_of rt ?q a) ?res"
    unfolding res by (rule sorted_wrt_take) (rule ranked_sorted)
  have pre_ranked: "prefix ?res (ranked rt idx args)"
    unfolding res by (rule take_is_prefix)
  have pre: "prefix (filter (\<lambda>d. score_of rt ?q d = k) ?res)
                    (filter (\<lambda>d. score_of rt ?q d = k) (collect idx (arg_source args)))" for k
  proof (cases "0 < k")
    case True
    have "prefix (filter (\<lambda>d. score_of rt ?q d = k) ?res)
                 (filter (\<lambda>d. score_of rt ?q d = k) (ranked rt idx args))"
      using pre_ranked by (rule filter_mono_prefix)
    then show ?thesis by (simp add: ranked_stable [OF True])
  next
    case False
    have "\<forall>r\<in>set ?res. score_of rt ?q r \<noteq> k"
    proof
      fix r assume "r \<in> set ?res"
      then have "r \<in> set (ranked rt idx args)"
        using pre_ranked by (auto dest: set_mono_prefix)
      then show "score_of rt ?q r \<noteq> k"
        using ranked_positive [of r rt idx args] False by linarith
    qed
    then have "filter (\<lambda>d. score_of rt ?q d = k) ?res = []"
      by (simp add: filter_empty_conv)
    then show ?thesis by simp
  qed
  have cnt: "sr_count (search_datasets rt idx args) = length ?res"
    by (simp add: search_datasets_def Let_def)
  have nonneg: "?res = take (nat l) (ranked rt idx args) \<and> int (length ?res) \<le> l"
    if "to_integer rt ?lim = Finite l \<and> 0 \<le> l" for l
  proof -
    from that have "?res = take (nat l) (ranked rt idx args)"
      unfolding res by (simp add: relative_index_nonneg min_def)
    moreover have "int (length (take (nat l) (ranked rt idx args))) \<le> l"
      using that by (auto simp: min_def)
    ultimately show ?thesis by simp
  qed
  have neg: "?res = take (length (ranked rt idx args) - nat (- l)) (ranked rt idx args)"
    if "to_integer rt ?lim = Finite l \<and> l < 0" for l
    using that unfolding res by (simp add: relative_index_neg)
  have pinf: "?res = ranked rt idx args" if "to_integer rt ?lim = PlusInfinity"
    using that unfolding res by (simp add: relative_index_def)
  have minf: "?res = []" if "to_integer rt ?lim = MinusInfinity"
    using that unfolding res by (simp add: relative_index_def)
  have int: "to_integer rt ?lim = Finite l"
    if "?lim = Integer l \<and> - MAX_SAFE_INTEGER \<le> l \<and> l \<le> MAX_SAFE_INTEGER" for l
    using that by (simp add: to_integer_safe safe_integer_Integer)
  show ?thesis
    using sorted_res pre ranked_sorted [of rt args idx] ranked_stable [of _ rt args idx]
      pre_ranked cnt nonneg neg pinf minf int
    by blast
qed

theorem search_sorted_stable_truncated_witness:
  "to_integer node (or_default (arg_limit (search_args ''GDP'' None (Some (Integer 2))))
     (Integer 10)) = Finite 2
   \<and> ranked node gdp_index (search_args ''GDP'' None (Some (Integer 2))) =
       [tag ''opendosm'' gdp, tag ''opendosm'' gdp_qtr, tag ''data_catalogue'' gdp_qtr]
   \<and> sr_datasets (search_datasets node gdp_index (search_args ''GDP'' None (Some (Integer 2)))) =
       [tag ''opendosm'' gdp, tag ''opendosm'' gdp_qtr]
   \<and> to_integer node (or_default (arg_limit (search_args ''GDP'' None (Some (Integer (- 1)))))
       (Integer 10)) = Finite (- 1)
   \<and> ranked node gdp_index (search_args ''GDP'' None (Some (Integer (- 1)))) =
       [tag ''opendosm'' gdp, tag ''opendosm'' gdp_qtr, tag ''data_catalogue'' gdp_qtr]
   \<and> sr_datasets
         (search_datasets node gdp_index (search_args ''GDP'' None (Some (Integer (- 1))))) =
       [tag ''opendosm'' gdp, tag ''opendosm'' gdp_qtr]"
proof -
  let ?a = "search_args ''GDP'' None (Some (Integer 2))"
  let ?b = "search_args ''GDP'' None (Some (Integer (- 1)))"
  have la: "to_integer node (or_default (arg_limit ?a) (Integer 10)) = Finite 2"
    by code_simp
  have lb: "to_integer node (or_default (arg_limit ?b) (Integer 10)) = Finite (- 1)"
    by code_simp
  have ra: "ranked node gdp_index ?a =
       [tag ''opendosm'' gdp, tag ''opendosm'' gdp_qtr, tag ''data_catalogue'' gdp_qtr]"
    by code_simp
  have rb: "ranked node gdp_index ?b =
       [tag ''opendosm'' gdp, tag ''opendosm'' gdp_qtr, tag ''data_catalogue'' gdp_qtr]"
    by code_simp
  from search_sorted_stable_truncated [of node ?a gdp_index]
  have "to_integer node (or_default (arg_limit ?a) (Integer 10)) = Finite 2 \<and> (0 :: int) \<le> 2 \<longrightarrow>
        sr_datasets (search_datasets node gdp_index ?a) = take (nat 2) (ranked node gdp_index ?a)"
    by blast
  with la have "sr_datasets (search_datasets node gdp_index ?a) =
          take (nat 2) (ranked node gdp_index ?a)"
    by simp
  then have a: "sr_datasets (search_datasets node gdp_index ?a) =
       [tag ''opendosm'' gdp, tag ''opendosm'' gdp_qtr]"
    unfolding ra by (simp add: numeral_2_eq_2)
  have neg: "(- 1 :: int) < 0" by simp
  from search_sorted_stable_truncated [of node ?b gdp_index] lb neg
  have "sr_datasets (search_datasets node gdp_index ?b) =
          take (length (ranked node gdp_index ?b) - nat (- (- 1))) (ranked node gdp_index ?b)"
    by blast
  then have b: "sr_datasets (search_datasets node gdp_index ?b) =
       [tag ''opendosm'' gdp, tag ''opendosm'' gdp_qtr]"
    unfolding rb by (simp add: numeral_2_eq_2)
  show ?thesis
    using la lb ra rb a b by blast
qed

text \<open>
  C2 as stated, with at most \<open>limit\<close> records for every limit, fails: \<open>slice(0, -1)\<close>
  drops the last record of the ranking, so with three matching records and limit \<open>-1\<close>
  two records come back.
\<close>

theorem search_limit_counterexample:
  "or_default (arg_limit (search_args ''GDP'' None (Some (Integer (- 1))))) (Integer 10)
     = Integer (- 1)
   \<and> length (sr_datasets
        (search_datasets node gdp_index (search_args ''GDP'' None (Some (Integer (- 1)))))) = 2
   \<and> \<not> int (length (sr_datasets
               (search_datasets node gdp_index (search_args ''GDP'' None (Some (Integer (- 1)))))))
         \<le> - 1"
proof -
  have l: "or_default (arg_limit (search_args ''GDP'' None (Some (Integer (- 1))))) (Integer 10)
             = Integer (- 1)"
    by code_simp
  have n: "length (sr_datasets
             (search_datasets node gdp_index (search_args ''GDP'' None (Some (Integer (- 1)))))) = 2"
    by code_simp
  show ?thesis unfolding l n by simp
qed


text \<open>
  C3 (amended). A record whose id equals the query earns 100 for it and a record whose id
  only contains the query earns 50; the other clauses add to both. So the record with the
  equal id scores strictly higher, and is returned before the other wherever both are
  returned (and is returned whenever the other is), provided the other record's name,
  description and keyword points exceed its own by less than 50; in particular when
  these points are equal, as for \<open>gdp\<close> and \<open>gdp_qtr\<close> with the same name and
  description.
\<close>

theorem exact_id_outranks_partial_id:
  fixes e p :: tagged
  assumes "toLowerCase rt (arg_query args) = toLowerCase rt (ds_id e)"
    and "toLowerCase rt (arg_query args) \<noteq> toLowerCase rt (ds_id p)"
    and "str_includes (toLowerCase rt (ds_id p)) (toLowerCase rt (arg_query args))"
    and "other_points rt (toLowerCase rt (arg_query args)) p
           < other_points rt (toLowerCase rt (arg_query args)) e + 50"
  shows "score_of rt (toLowerCase rt (arg_query args)) p < score_of rt (toLowerCase rt (arg_query args)) e
       \<and> (\<forall>i j. i < length (sr_datasets (search_datasets rt idx args))
               \<and> j < length (sr_datasets (search_datasets rt idx args))
               \<and> sr_datasets (search_datasets rt idx args) ! i = e
               \<and> sr_datasets (search_datasets rt idx args) ! j = p \<longrightarrow> i < j)
       \<and> (e \<in> set (collect idx (arg_source args))
            \<and> p \<in> set (sr_datasets (search_datasets rt idx args))
          \<longrightarrow> e \<in> set (sr_datasets (search_datasets rt idx args)))"
proof -
  let ?q = "toLowerCase rt (arg_query args)"
  let ?res = "sr_datasets (search_datasets rt idx args)"
  let ?n = "relative_index (to_integer rt (search_limit args)) (length (ranked rt idx args))"
  have res: "?res = take ?n (ranked rt idx args)"
    by (rule search_datasets_take)
  have higher: "score_of rt ?q p < score_of rt ?q e"
    using assms by (simp add: score_of_split id_points_def)
  have sorted_res: "sorted_wrt (\<lambda>a b. score_of rt ?q b \<le> score_of rt ?q a) ?res"
    unfolding res by (rule sorted_wrt_take) (rule ranked_sorted)
  have order: "i < j" if "i < length ?res" "j < length ?res" "?res ! i = e" "?res ! j = p" for i j
    using sorted_res higher that by (rule sorted_desc_before)
  have present: "e \<in> set ?res" if e: "e \<in> set (collect idx (arg_source args))" and p: "p \<in> set ?res"
  proof -
    from p obtain j where j: "j < length ?res" "?res ! j = p"
      by (auto simp: in_set_conv_nth)
    then have jn: "j < ?n" "j < length (ranked rt idx args)" "ranked rt idx args ! j = p"
      by (simp_all add: res)
    then have "p \<in> set (ranked rt idx args)"
      by (auto simp: in_set_conv_nth)
    then have "0 < score_of rt ?q p" by (rule ranked_positive)
    with higher e have "e \<in> set (ranked rt idx args)"
      by (simp add: set_ranked)
    then obtain i where i: "i < length (ranked rt idx args)" "ranked rt idx args ! i = e"
      by (auto simp: in_set_conv_nth)
    have "i < j"
      using ranked_sorted higher i(1) jn(2) i(2) jn(3) by (rule sorted_desc_before)
    with jn(1) i have "i < length ?res" "?res ! i = e"
      by (simp_all add: res)
    then show ?thesis
      by (auto simp: in_set_conv_nth)
  qed
  show ?thesis
    using higher order present by blast
qed

theorem exact_id_outranks_partial_id_witness:
  "toLowerCase node (arg_query (search_args ''gdp'' None None)) = toLowerCase node (ds_id (tag ''opendosm'' gdp))
   \<and> toLowerCase node (arg_query (search_args ''gdp'' None None))
       \<noteq> toLowerCase node (ds_id (tag ''opendosm'' gdp_qtr))
   \<and> str_includes (toLowerCase node (ds_id (tag ''opendosm'' gdp_qtr)))
        (toLowerCase node (arg_query (search_args ''gdp'' None None)))
   \<and> other_points node (toLowerCase node (arg_query (search_args ''gdp'' None None))) (tag ''opendosm'' gdp_qtr)
       < other_points node (toLowerCase node (arg_query (search_args ''gdp'' None None))) (tag ''opendosm'' gdp) + 50
   \<and> score_of node (toLowerCase node (arg_query (search_args ''gdp'' None None))) (tag ''opendosm'' gdp_qtr)
       < score_of node (toLowerCase node (arg_query (search_args ''gdp'' None None))) (tag ''opendosm'' gdp)
   \<and> sr_datasets (search_datasets node gdp_index (search_args ''gdp'' None None)) =
       [tag ''opendosm'' gdp, tag ''opendosm'' gdp_qtr, tag ''data_catalogue'' gdp_qtr]"
proof -
  have h1: "toLowerCase node (arg_query (search_args ''gdp'' None None))
              = toLowerCase node (ds_id (tag ''opendosm'' gdp))"
    by code_simp
  have h2: "toLowerCase node (arg_query (search_args ''gdp'' None None))
              \<noteq> toLowerCase node (ds_id (tag ''opendosm'' gdp_qtr))"
    by code_simp
  have h3: "str_includes (toLowerCase node (ds_id (tag ''opendosm'' gdp_qtr)))
              (toLowerCase node (arg_query (search_args ''gdp'' None None)))"
    by code_simp
  have h4: "other_points node (toLowerCase node (arg_query (search_args ''gdp'' None None)))
              (tag ''opendosm'' gdp_qtr)
            < other_points node (toLowerCase node (arg_query (search_args ''gdp'' None None)))
              (tag ''opendosm'' gdp) + 50"
    by code_simp
  have run: "sr_datasets (search_datasets node gdp_index (search_args ''gdp'' None None)) =
       [tag ''opendosm'' gdp, tag ''opendosm'' gdp_qtr, tag ''data_catalogue'' gdp_qtr]"
    by code_simp
  show ?thesis
    using exact_id_outranks_partial_id [OF h1 h2 h3 h4] h1 h2 h3 h4 run
    by blast
qed

text \<open>
  C3 as stated, for every pair of records, fails: for the query \<open>gdp\<close> the record
  \<open>gdp_qtr\<close> whose name, description and one keyword also match scores
  50 + 30 + 10 + 40 = 130 and is returned before the record \<open>gdp\<close>, which scores 100.
\<close>

theorem exact_id_outranked_counterexample:
  "toLowerCase node ''gdp'' = toLowerCase node (ds_id gdp)
   \<and> toLowerCase node ''gdp'' \<noteq> toLowerCase node (ds_id gdp_qtr_rich)
   \<and> str_includes (toLowerCase node (ds_id gdp_qtr_rich)) (toLowerCase node ''gdp'')
   \<and> sr_datasets (search_datasets node rich_index (search_args ''gdp'' None None)) =
       [tag ''opendosm'' gdp_qtr_rich, tag ''opendosm'' gdp]
   \<and> score_of node (toLowerCase node ''gdp'') gdp = 100
   \<and> score_of node (toLowerCase node ''gdp'') gdp_qtr_rich = 130"
  by code_simp


section \<open>Claims about listing\<close>

text \<open>
  C4 (amended for the empty category filter). With a category filter that is not the
  empty string, the records kept are exactly the candidates that have a category equal
  to it up to case, in their order, so records without a category are dropped; with no
  category filter, or the empty string, every candidate is kept. \<open>total\<close> is the number
  of records kept, before pagination, and \<open>count\<close> the number of records returned.
  When the offset, cut to an integer, is \<open>off\<close> and the sum of offset and limit, cut
  to an integer, is \<open>off + l\<close>, neither \<open>off\<close> nor \<open>l\<close> negative, the records
  returned are those at positions \<open>off\<close> up to \<open>off + l\<close> of the records kept; that
  is so for an offset \<open>off\<close> and a limit \<open>l\<close> that are integers, not negative, with
  a sum that is a safe integer. An offset at or beyond \<open>total\<close> gives no records,
  whatever the limit, with \<open>total\<close> as before. The tool call answers with this result,
  not marked as an error.
\<close>

theorem list_datasets_filter_total_page:
  "(\<forall>c. arg_category args = Some c \<and> c \<noteq> [] \<longrightarrow>
        filter_category rt (arg_category args) (collect idx (arg_source args)) =
          filter (\<lambda>d. \<exists>c'. ds_category d = Some c' \<and> ci_equals rt c' c)
            (collect idx (arg_source args)))
   \<and> (\<not> truthy (arg_category args) \<longrightarrow>
        filter_category rt (arg_category args) (collect idx (arg_source args)) =
          collect idx (arg_source args))
   \<and> lr_total (list_datasets rt idx args) =
       length (filter_category rt (arg_category args) (collect idx (arg_source args)))
   \<and> lr_count (list_datasets rt idx args) = length (lr_datasets (list_datasets rt idx args))
   \<and> lr_limit (list_datasets rt idx args) = or_default (arg_limit args) (Integer 100)
   \<and> lr_offset (list_datasets rt idx args) = or_default (arg_offset args) (Integer 0)
   \<and> (\<forall>off l. to_integer rt (or_default (arg_offset args) (Integer 0)) = Finite off
            \<and> to_integer rt (number_add rt (or_default (arg_offset args) (Integer 0))
                               (or_default (arg_limit args) (Integer 100)))
                = Finite (off + l)
            \<and> 0 \<le> off \<and> 0 \<le> l \<longrightarrow>
         lr_datasets (list_datasets rt idx args) =
           take (nat l) (drop (nat off)
             (filter_category rt (arg_category args) (collect idx (arg_source args)))))
   \<and> (\<forall>off l. or_default (arg_offset args) (Integer 0) = Integer off
            \<and> or_default (arg_limit args) (Integer 100) = Integer l
            \<and> 0 \<le> off \<and> 0 \<le> l \<and> off + l \<le> MAX_SAFE_INTEGER \<longrightarrow>
         lr_datasets (list_datasets rt idx args) =
           take (nat l) (drop (nat off)
             (filter_category rt (arg_category args) (collect idx (arg_source args)))))
   \<and> (\<forall>off. to_integer rt (or_default (arg_offset args) (Integer 0)) = Finite off
          \<and> int (lr_total (list_datasets rt idx args)) \<le> off \<longrightarrow>
         lr_datasets (list_datasets rt idx args) = []
         \<and> lr_total (list_datasets rt idx args) =
             length (filter_category rt (arg_category args) (collect idx (arg_source args))))
   \<and> call_tool w idx c ''list_datasets'' args =
       (\<lparr>content = Listing (list_datasets w idx args), isError = False\<rparr>, c)"
proof -
  let ?kept = "filter_category rt (arg_category args) (collect idx (arg_source args))"
  let ?o = "or_default (arg_offset args) (Integer 0)"
  let ?l = "or_default (arg_limit args) (Integer 100)"
  have page: "lr_datasets (list_datasets rt idx args) = slice rt ?kept ?o (number_add rt ?o ?l)"
    using list_datasets_page [of rt idx args] by (simp add: list_offset_def list_limit_def)
  have given: "?kept = filter (\<lambda>d. \<exists>c'. ds_category d = Some c' \<and> ci_equals rt c' c)
                (collect idx (arg_source args))"
    if "arg_category args = Some c \<and> c \<noteq> []" for c
    using that by (simp add: filter_category_def category_matches_iff [abs_def])
  have absent: "\<not> truthy (arg_category args) \<longrightarrow> ?kept = collect idx (arg_source args)"
    by (simp add: filter_category_absent)
  have total: "lr_total (list_datasets rt idx args) = length ?kept"
    by (simp add: list_datasets_def Let_def)
  have count: "lr_count (list_datasets rt idx args)
                 = length (lr_datasets (list_datasets rt idx args))"
    by (simp add: list_datasets_def Let_def)
  have lim: "lr_limit (list_datasets rt idx args) = ?l"
    by (simp add: list_datasets_def Let_def)
  have offs: "lr_offset (list_datasets rt idx args) = ?o"
    by (simp add: list_datasets_def Let_def)
  have general: "lr_datasets (list_datasets rt idx args) = take (nat l) (drop (nat off) ?kept)"
    if "to_integer rt ?o = Finite off \<and> to_integer rt (number_add rt ?o ?l) = Finite (off + l)
        \<and> 0 \<le> off \<and> 0 \<le> l" for off l
    unfolding page using that by (intro slice_nonneg) simp_all
  have integers: "lr_datasets (list_datasets rt idx args) = take (nat l) (drop (nat off) ?kept)"
    if h: "?o = Integer off \<and> ?l = Integer l \<and> 0 \<le> off \<and> 0 \<le> l
           \<and> off + l \<le> MAX_SAFE_INTEGER" for off l
  proof -
    have m: "0 \<le> MAX_SAFE_INTEGER" by (simp add: MAX_SAFE_INTEGER_def)
    have so: "safe_integer (Integer off) = Some off"
      using h m by (intro safe_integer_Integer) linarith+
    have sl: "safe_integer (Integer l) = Some l"
      using h m by (intro safe_integer_Integer) linarith+
    have ss: "safe_integer (Integer (off + l)) = Some (off + l)"
      using h m by (intro safe_integer_Integer) linarith+
    have add: "number_add rt ?o ?l = Integer (off + l)"
      using h so sl ss by (simp add: number_add_safe)
    have "to_integer rt ?o = Finite off \<and> to_integer rt (number_add rt ?o ?l) = Finite (off + l)
          \<and> 0 \<le> off \<and> 0 \<le> l"
      using h so ss add by (simp add: to_integer_safe)
    then show ?thesis by (rule general)
  qed
  have beyond: "lr_datasets (list_datasets rt idx args) = []
                \<and> lr_total (list_datasets rt idx args) = length ?kept"
    if "to_integer rt ?o = Finite off \<and> int (lr_total (list_datasets rt idx args)) \<le> off" for off
    using that unfolding page total by (simp add: slice_beyond)
  have tool: "call_tool w idx c ''list_datasets'' args =
           (\<lparr>content = Listing (list_datasets w idx args), isError = False\<rparr>, c)"
    by (simp add: call_tool_def handle_tool_def)
  show ?thesis
    using given absent total count lim offs general integers beyond tool by blast
qed

theorem list_datasets_filter_total_page_witness:
  "arg_category (list_args None (Some ''PRICES'') (Some (Integer 5)) (Some (Integer 2)))
     = Some ''PRICES''
   \<and> ''PRICES'' \<noteq> []
   \<and> filter_category node (Some ''PRICES'') (collect mixed_index None) =
       [tag ''opendosm'' cpi_core, tag ''data_catalogue'' fuelprice]
   \<and> lr_total (list_datasets node mixed_index
        (list_args None (Some ''PRICES'') (Some (Integer 5)) (Some (Integer 2)))) = 2
   \<and> lr_datasets (list_datasets node mixed_index
        (list_args None (Some ''PRICES'') (Some (Integer 5)) (Some (Integer 2)))) = []
   \<and> lr_datasets (list_datasets node mixed_index
        (list_args None (Some ''PRICES'') (Some (Integer 1)) (Some (Integer 1)))) =
       [tag ''data_catalogue'' fuelprice]
   \<and> fst (call_tool quiet_world mixed_index new_client ''list_datasets''
             (list_args None (Some ''PRICES'') (Some (Integer 5)) (Some (Integer 2)))) =
       \<lparr>content = Listing \<lparr>lr_total = 2, lr_limit = Integer 5, lr_offset = Integer 2,
                             lr_count = 0, lr_datasets = []\<rparr>,
        isError = False\<rparr>"
proof -
  let ?a = "list_args None (Some ''PRICES'') (Some (Integer 5)) (Some (Integer 2))"
  let ?b = "list_args None (Some ''PRICES'') (Some (Integer 1)) (Some (Integer 1))"
  let ?kept = "[tag ''opendosm'' cpi_core, tag ''data_catalogue'' fuelprice]"
  have cat: "arg_category ?a = Some ''PRICES''" by code_simp
  have catb: "arg_category ?b = Some ''PRICES''" by code_simp
  have src: "arg_source ?a = None" by code_simp
  have srcb: "arg_source ?b = None" by code_simp
  have off: "or_default (arg_offset ?a) (Integer 0) = Integer 2" by code_simp
  have lim: "or_default (arg_limit ?a) (Integer 100) = Integer 5" by code_simp
  have offb: "or_default (arg_offset ?b) (Integer 0) = Integer 1" by code_simp
  have limb: "or_default (arg_limit ?b) (Integer 100) = Integer 1" by code_simp
  have safe: "(2 :: int) + 5 \<le> MAX_SAFE_INTEGER" "(1 :: int) + 1 \<le> MAX_SAFE_INTEGER"
    by (simp_all add: MAX_SAFE_INTEGER_def)
  have kept: "filter_category node (Some ''PRICES'') (collect mixed_index None) = ?kept"
    by code_simp
  have whole: "list_datasets quiet_world mixed_index ?a =
       \<lparr>lr_total = 2, lr_limit = Integer 5, lr_offset = Integer 2, lr_count = 0,
        lr_datasets = []\<rparr>"
    by code_simp
  note a = list_datasets_filter_total_page [of ?a node mixed_index quiet_world new_client]
  note b = list_datasets_filter_total_page [of ?b node mixed_index quiet_world new_client]
  from a have "lr_total (list_datasets node mixed_index ?a) =
      length (filter_category node (arg_category ?a) (collect mixed_index (arg_source ?a)))"
    by blast
  then have t: "lr_total (list_datasets node mixed_index ?a) = 2"
    unfolding cat src kept by simp
  from a have "or_default (arg_offset ?a) (Integer 0) = Integer 2
        \<and> or_default (arg_limit ?a) (Integer 100) = Integer 5
        \<and> (0 :: int) \<le> 2 \<and> (0 :: int) \<le> 5 \<and> 2 + 5 \<le> MAX_SAFE_INTEGER \<longrightarrow>
      lr_datasets (list_datasets node mixed_index ?a) =
      take (nat 5) (drop (nat 2)
        (filter_category node (arg_category ?a) (collect mixed_index (arg_source ?a))))"
    by blast
  with off lim safe have "lr_datasets (list_datasets node mixed_index ?a) =
      take (nat 5) (drop (nat 2)
        (filter_category node (arg_category ?a) (collect mixed_index (arg_source ?a))))"
    by simp
  then have p: "lr_datasets (list_datasets node mixed_index ?a) = []"
    unfolding cat src kept by simp
  from b have "or_default (arg_offset ?b) (Integer 0) = Integer 1
        \<and> or_default (arg_limit ?b) (Integer 100) = Integer 1
        \<and> (0 :: int) \<le> 1 \<and> (0 :: int) \<le> 1 \<and> 1 + 1 \<le> MAX_SAFE_INTEGER \<longrightarrow>
      lr_datasets (list_datasets node mixed_index ?b) =
      take (nat 1) (drop (nat 1)
        (filter_category node (arg_category ?b) (collect mixed_index (arg_source ?b))))"
    by blast
  with offb limb safe have "lr_datasets (list_datasets node mixed_index ?b) =
      take (nat 1) (drop (nat 1)
        (filter_category node (arg_category ?b) (collect mixed_index (arg_source ?b))))"
    by simp
  then have pb: "lr_datasets (list_datasets node mixed_index ?b) =
      [tag ''data_catalogue'' fuelprice]"
    unfolding catb srcb kept by simp
  from a have "call_tool quiet_world mixed_index new_client ''list_datasets'' ?a =
       (\<lparr>content = Listing (list_datasets quiet_world mixed_index ?a), isError = False\<rparr>,
        new_client)"
    by blast
  then have tool: "fst (call_tool quiet_world mixed_index new_client ''list_datasets'' ?a) =
       \<lparr>content = Listing \<lparr>lr_total = 2, lr_limit = Integer 5, lr_offset = Integer 2,
                             lr_count = 0, lr_datasets = []\<rparr>,
        isError = False\<rparr>"
    unfolding whole by simp
  show ?thesis
    using cat kept t p pb tool by simp
qed

text \<open>
  C4 as stated, for every category filter, fails for the empty string: \<open>if (category)\<close>
  skips the filter, so every record is kept, also the one without a category and those
  of the categories \<open>Prices\<close> and \<open>Economy\<close>, none of which equals the filter.
\<close>

theorem empty_category_counterexample:
  "arg_category (list_args None (Some []) None None) = Some []
   \<and> lr_datasets (list_datasets node mixed_index (list_args None (Some []) None None)) =
       [tag ''opendosm'' cpi_core, tag ''opendosm'' gdp, tag ''opendosm'' uncategorised,
        tag ''data_catalogue'' fuelprice]
   \<and> lr_total (list_datasets node mixed_index (list_args None (Some []) None None)) = 4
   \<and> ds_category (tag ''opendosm'' uncategorised) = None
   \<and> ds_category (tag ''opendosm'' cpi_core) = Some ''Prices''
   \<and> \<not> ci_equals node ''Prices'' []
   \<and> \<not> category_matches node [] (tag ''opendosm'' uncategorised)
   \<and> \<not> category_matches node [] (tag ''opendosm'' cpi_core)"
  by code_simp


section \<open>Claims about the API client\<close>





text \<open>
  C6. When the upstream answers a request of either query method with a response whose
  status is outside 200..299, the call fails with the error
  \<open><label> API error: <status> <status text>\<close>; when the status is inside and the body
  parses to a JSON value, the call returns that value as it is. Either way the client has
  made exactly one request: there is no second attempt.
\<close>

theorem query_reports_status_or_body:
  "(net w (length (requests c))
       (OPENDOSM_BASE_URL @ ''?'' @ params_toString (build_params w datasetId options))
      = Responded r \<longrightarrow>
      (\<not> ok r \<longrightarrow>
         fst (queryOpenDOSM w c datasetId options) =
           Inl (Error (''OpenDOSM API error: '' @ digits (status r)
                        @ '' '' @ statusText r)))
      \<and> (\<forall>j. ok r \<and> body r = Inr j \<longrightarrow> fst (queryOpenDOSM w c datasetId options) = Inr j)
      \<and> requests (snd (queryOpenDOSM w c datasetId options)) =
          requests c
          @ [OPENDOSM_BASE_URL @ ''?'' @ params_toString (build_params w datasetId options)])
   \<and> (net w (length (requests c))
         (DATA_CATALOGUE_BASE_URL @ ''?'' @ params_toString (build_params w datasetId options))
        = Responded r \<longrightarrow>
      (\<not> ok r \<longrightarrow>
         fst (queryDataCatalogue w c datasetId options) =
           Inl (Error (''Data Catalogue API error: '' @ digits (status r)
                        @ '' '' @ statusText r)))
      \<and> (\<forall>j. ok r \<and> body r = Inr j \<longrightarrow>
            fst (queryDataCatalogue w c datasetId options) = Inr j)
      \<and> requests (snd (queryDataCatalogue w c datasetId options)) =
          requests c
          @ [DATA_CATALOGUE_BASE_URL @ ''?''
              @ params_toString (build_params w datasetId options)])
   \<and> (ok r \<longleftrightarrow> 200 \<le> status r \<and> status r \<le> 299)"
  unfolding queryOpenDOSM_def queryDataCatalogue_def
  by (auto simp: query_api_responded ok_def)

theorem query_reports_status_or_body_witness:
  "net failing_world (length (requests new_client))
       (OPENDOSM_BASE_URL @ ''?'' @ params_toString (build_params failing_world ''nope'' no_options))
      = Responded not_found
   \<and> \<not> ok not_found
   \<and> fst (queryOpenDOSM failing_world new_client ''nope'' no_options) =
       Inl (Error ''OpenDOSM API error: 404 Not Found'')
   \<and> requests (snd (queryOpenDOSM failing_world new_client ''nope'' no_options)) =
       [''https://api.data.gov.my/opendosm?id=nope&limit=100&offset=0'']
   \<and> net serving_world (length (requests new_client))
       (DATA_CATALOGUE_BASE_URL @ ''?'' @ params_toString (build_params serving_world ''fuelprice'' no_options))
      = Responded (ok_response (JObj [(''frequency'', JStr ''WEEKLY'')]))
   \<and> ok (ok_response (JObj [(''frequency'', JStr ''WEEKLY'')]))
   \<and> fst (queryDataCatalogue serving_world new_client ''fuelprice'' no_options) =
       Inr (JObj [(''frequency'', JStr ''WEEKLY'')])"
proof -
  let ?u1 = "OPENDOSM_BASE_URL @ ''?'' @ params_toString (build_params failing_world ''nope'' no_options)"
  let ?u2 = "DATA_CATALOGUE_BASE_URL @ ''?''
               @ params_toString (build_params serving_world ''fuelprice'' no_options)"
  let ?m = "JObj [(''frequency'', JStr ''WEEKLY'')]"
  have h1: "net failing_world (length (requests new_client)) ?u1 = Responded not_found"
    by (simp add: failing_world_def on_node_def)
  have n1: "\<not> ok not_found" by code_simp
  have msg: "''OpenDOSM API error: '' @ digits (status not_found)
               @ '' '' @ statusText not_found = ''OpenDOSM API error: 404 Not Found''"
    by code_simp
  have u1: "requests new_client @ [?u1] =
      [''https://api.data.gov.my/opendosm?id=nope&limit=100&offset=0'']"
    by code_simp
  have h2: "net serving_world (length (requests new_client)) ?u2 = Responded (ok_response ?m)"
    by (simp add: serving_world_def on_node_def new_client_def)
  have o2: "ok (ok_response ?m)" by code_simp
  have b2: "body (ok_response ?m) = Inr ?m" by (simp add: ok_response_def)
  have a: "fst (queryOpenDOSM failing_world new_client ''nope'' no_options) =
       Inl (Error ''OpenDOSM API error: 404 Not Found'')"
    and b: "requests (snd (queryOpenDOSM failing_world new_client ''nope'' no_options)) =
       [''https://api.data.gov.my/opendosm?id=nope&limit=100&offset=0'']"
    using query_reports_status_or_body
            [of failing_world new_client "''nope''" no_options not_found] h1 n1
    unfolding msg u1 by blast+
  have c: "fst (queryDataCatalogue serving_world new_client ''fuelprice'' no_options) =
       Inr ?m"
    using query_reports_status_or_body
            [of serving_world new_client "''fuelprice''" no_options "ok_response ?m"]
          h2 o2 b2
    by blast
  show ?thesis
    using h1 n1 a b h2 o2 c by blast
qed


section \<open>Claims about the tool handler\<close>

text \<open>
  C7. Whatever error the handling of a tool call raises, the handler answers with the
  object \<open>{error, tool, arguments}\<close> marked \<open>isError\<close>, and it marks an answer as an
  error only then. A name that is none of the six tools gives the error
  \<open>Unknown tool: <name>\<close>; a source other than \<open>opendosm\<close> and \<open>data_catalogue\<close> given
  to \<open>get_dataset_metadata\<close> or \<open>get_dataset_schema\<close> gives an error whose message names
  both accepted values, quoted, before any request is made. A call makes at most one
  request (two for \<open>get_dataset_schema\<close>, one for the metadata and one for the sample):
  nothing is tried again.
\<close>

theorem tool_errors_are_reported:
  "(\<forall>e c'. handle_tool w idx c name args = (Inl e, c') \<longrightarrow>
       call_tool w idx c name args =
         (\<lparr>content = Failure (message e) name args, isError = True\<rparr>, c'))
   \<and> (isError (fst (call_tool w idx c name args))
        \<longleftrightarrow> (\<exists>e. fst (handle_tool w idx c name args) = Inl e))
   \<and> (\<not> known_tool name \<longrightarrow>
        call_tool w idx c name args =
          (\<lparr>content = Failure (''Unknown tool: '' @ name) name args, isError = True\<rparr>, c))
   \<and> ((name = ''get_dataset_metadata'' \<or> name = ''get_dataset_schema'')
        \<and> arg_source args \<noteq> Some ''opendosm'' \<and> arg_source args \<noteq> Some ''data_catalogue'' \<longrightarrow>
        call_tool w idx c name args =
          (\<lparr>content = Failure (message invalid_source) name args, isError = True\<rparr>, c))
   \<and> str_includes (message invalid_source) (CHR 0x27 # ''opendosm'' @ [CHR 0x27])
   \<and> str_includes (message invalid_source) (CHR 0x27 # ''data_catalogue'' @ [CHR 0x27])
   \<and> length (requests (snd (call_tool w idx c name args)))
        \<le> length (requests c) + (if name = ''get_dataset_schema'' then 2 else 1)"
proof -
  have caught: "call_tool w idx c name args =
         (\<lparr>content = Failure (message e) name args, isError = True\<rparr>, c')"
    if "handle_tool w idx c name args = (Inl e, c')" for e c'
    using that by (simp add: call_tool_def)
  have marked: "isError (fst (call_tool w idx c name args))
        \<longleftrightarrow> (\<exists>e. fst (handle_tool w idx c name args) = Inl e)"
    by (cases "handle_tool w idx c name args") (auto simp: call_tool_def split: sum.splits)
  have unknown: "call_tool w idx c name args =
          (\<lparr>content = Failure (''Unknown tool: '' @ name) name args, isError = True\<rparr>, c)"
    if "\<not> known_tool name"
    using that by (simp add: call_tool_def handle_tool_def known_tool_def)
  have source: "call_tool w idx c name args =
          (\<lparr>content = Failure (message invalid_source) name args, isError = True\<rparr>, c)"
    if "(name = ''get_dataset_metadata'' \<or> name = ''get_dataset_schema'')
        \<and> arg_source args \<noteq> Some ''opendosm'' \<and> arg_source args \<noteq> Some ''data_catalogue''"
    using that
    by (auto simp: call_tool_def handle_tool_def get_dataset_metadata_def
          get_dataset_schema_def fetch_metadata_def Let_def)
  have bound: "length (requests (snd (call_tool w idx c name args)))
        \<le> length (requests c) + (if name = ''get_dataset_schema'' then 2 else 1)"
    unfolding snd_call_tool by (rule handle_tool_length)
  show ?thesis
    using caught marked unknown source invalid_source_names bound by blast
qed

theorem tool_errors_are_reported_witness:
  "\<not> known_tool ''drop_tables''
   \<and> call_tool failing_world cpi_index new_client ''drop_tables'' (id_args ''gdp'' None) =
       (\<lparr>content = Failure ''Unknown tool: drop_tables'' ''drop_tables'' (id_args ''gdp'' None),
         isError = True\<rparr>, new_client)
   \<and> arg_source (id_args ''gdp'' (Some ''dosm'')) \<noteq> Some ''opendosm''
   \<and> arg_source (id_args ''gdp'' (Some ''dosm'')) \<noteq> Some ''data_catalogue''
   \<and> call_tool failing_world cpi_index new_client ''get_dataset_metadata''
         (id_args ''gdp'' (Some ''dosm'')) =
       (\<lparr>content = Failure (message invalid_source) ''get_dataset_metadata''
                     (id_args ''gdp'' (Some ''dosm'')),
         isError = True\<rparr>, new_client)
   \<and> handle_tool failing_world cpi_index new_client ''get_dataset_schema''
         (id_args ''gdp'' (Some ''opendosm'')) =
       (Inl (Error ''OpenDOSM API error: 404 Not Found''),
        \<lparr>abortController = True,
         requests = [''https://api.data.gov.my/opendosm?id=gdp&meta_only=true'']\<rparr>)
   \<and> call_tool failing_world cpi_index new_client ''get_dataset_schema''
         (id_args ''gdp'' (Some ''opendosm'')) =
       (\<lparr>content = Failure ''OpenDOSM API error: 404 Not Found'' ''get_dataset_schema''
                     (id_args ''gdp'' (Some ''opendosm'')),
         isError = True\<rparr>,
        \<lparr>abortController = True,
         requests = [''https://api.data.gov.my/opendosm?id=gdp&meta_only=true'']\<rparr>)"
proof -
  let ?c' = "\<lparr>abortController = True,
         requests = [''https://api.data.gov.my/opendosm?id=gdp&meta_only=true'']\<rparr>"
  have h1: "\<not> known_tool ''drop_tables''" by code_simp
  have h2: "arg_source (id_args ''gdp'' (Some ''dosm'')) \<noteq> Some ''opendosm''" by code_simp
  have h3: "arg_source (id_args ''gdp'' (Some ''dosm'')) \<noteq> Some ''data_catalogue''" by code_simp
  have h4: "handle_tool failing_world cpi_index new_client ''get_dataset_schema''
         (id_args ''gdp'' (Some ''opendosm'')) =
       (Inl (Error ''OpenDOSM API error: 404 Not Found''), ?c')"
    by code_simp
  have a: "call_tool failing_world cpi_index new_client ''drop_tables'' (id_args ''gdp'' None) =
       (\<lparr>content = Failure ''Unknown tool: drop_tables'' ''drop_tables'' (id_args ''gdp'' None),
         isError = True\<rparr>, new_client)"
    using tool_errors_are_reported
            [of failing_world cpi_index new_client "''drop_tables''" "id_args ''gdp'' None"] h1
    by simp
  have b: "call_tool failing_world cpi_index new_client ''get_dataset_metadata''
         (id_args ''gdp'' (Some ''dosm'')) =
       (\<lparr>content = Failure (message invalid_source) ''get_dataset_metadata''
                     (id_args ''gdp'' (Some ''dosm'')),
         isError = True\<rparr>, new_client)"
    using tool_errors_are_reported
            [of failing_world cpi_index new_client "''get_dataset_metadata''"
                "id_args ''gdp'' (Some ''dosm'')"] h2 h3
    by blast
  have c: "call_tool failing_world cpi_index new_client ''get_dataset_schema''
         (id_args ''gdp'' (Some ''opendosm'')) =
       (\<lparr>content = Failure ''OpenDOSM API error: 404 Not Found'' ''get_dataset_schema''
                     (id_args ''gdp'' (Some ''opendosm'')),
         isError = True\<rparr>, ?c')"
    using tool_errors_are_reported
            [of failing_world cpi_index new_client "''get_dataset_schema''"
                "id_args ''gdp'' (Some ''opendosm'')"] h4
    by simp
  show ?thesis
    using h1 h2 h3 h4 a b c by blast
qed


text \<open>
  C8. For a source that is \<open>opendosm\<close> or \<open>data_catalogue\<close>, when the query for the
  metadata (options \<open>metaOnly = true\<close>, so parameters \<open>id\<close>, \<open>meta_only=true\<close>) and
  then the query for the sample (options \<open>limit = 3\<close>, so parameters \<open>id\<close>, \<open>limit=3\<close>,
  \<open>offset=0\<close>) both succeed, \<open>get_dataset_schema\<close> returns one object holding the
  dataset id, the source, as \<open>info\<close> the first record of that source's index with this
  id or, when the index has none, \<open>{id: dataset_id, name: "Unknown"}\<close>, the metadata,
  and the sample.
\<close>

theorem schema_composes_three_parts:
  assumes "arg_source args = Some ''opendosm'' \<or> arg_source args = Some ''data_catalogue''"
    and "(if arg_source args = Some ''opendosm'' then queryOpenDOSM else queryDataCatalogue)
           w c (arg_dataset_id args) (no_options\<lparr>metaOnly := Some True\<rparr>)
         = (Inr metadata, c1)"
    and "(if arg_source args = Some ''opendosm'' then queryOpenDOSM else queryDataCatalogue)
           w c1 (arg_dataset_id args) (no_options\<lparr>limit := Some (Integer 3)\<rparr>)
         = (Inr sampleData, c2)"
  shows "get_dataset_schema w idx c args =
           (Inr (Schema
              \<lparr>sc_dataset_id = arg_dataset_id args, sc_source = arg_source args,
               sc_info =
                 (case find (\<lambda>ds. ds_id ds = arg_dataset_id args)
                         (if arg_source args = Some ''opendosm'' then opendosm idx
                          else data_catalogue idx) of
                    Some d \<Rightarrow> Indexed d
                  | None \<Rightarrow> Minimal (arg_dataset_id args) ''Unknown''),
               sc_metadata = metadata, sc_sample_data = sampleData\<rparr>), c2)
       \<and> (find (\<lambda>ds. ds_id ds = arg_dataset_id args)
             (if arg_source args = Some ''opendosm'' then opendosm idx else data_catalogue idx)
            = None \<longleftrightarrow>
          arg_dataset_id args
            \<notin> ds_id ` set (if arg_source args = Some ''opendosm'' then opendosm idx
                            else data_catalogue idx))
       \<and> build_params w (arg_dataset_id args) (no_options\<lparr>metaOnly := Some True\<rparr>) =
           [(''id'', arg_dataset_id args), (''meta_only'', ''true'')]
       \<and> build_params w (arg_dataset_id args) (no_options\<lparr>limit := Some (Integer 3)\<rparr>) =
           [(''id'', arg_dataset_id args), (''limit'', ''3''), (''offset'', ''0'')]
       \<and> call_tool w idx c ''get_dataset_schema'' args =
           (\<lparr>content = Schema
              \<lparr>sc_dataset_id = arg_dataset_id args, sc_source = arg_source args,
               sc_info =
                 (case find (\<lambda>ds. ds_id ds = arg_dataset_id args)
                         (if arg_source args = Some ''opendosm'' then opendosm idx
                          else data_catalogue idx) of
                    Some d \<Rightarrow> Indexed d
                  | None \<Rightarrow> Minimal (arg_dataset_id args) ''Unknown''),
               sc_metadata = metadata, sc_sample_data = sampleData\<rparr>,
             isError = False\<rparr>, c2)"
proof -
  have meta: "fetch_metadata w c args = (Inr metadata, c1)"
    using assms(1,2) by (auto simp: fetch_metadata_def)
  have sample: "fetch_sample w c1 args = (Inr sampleData, c2)"
    using assms(1,3) by (auto simp: fetch_sample_def)
  have info: "lookup_info idx args =
      find (\<lambda>ds. ds_id ds = arg_dataset_id args)
        (if arg_source args = Some ''opendosm'' then opendosm idx else data_catalogue idx)"
    by (simp add: lookup_info_def)
  have whole: "get_dataset_schema w idx c args =
           (Inr (Schema
              \<lparr>sc_dataset_id = arg_dataset_id args, sc_source = arg_source args,
               sc_info =
                 (case find (\<lambda>ds. ds_id ds = arg_dataset_id args)
                         (if arg_source args = Some ''opendosm'' then opendosm idx
                          else data_catalogue idx) of
                    Some d \<Rightarrow> Indexed d
                  | None \<Rightarrow> Minimal (arg_dataset_id args) ''Unknown''),
               sc_metadata = metadata, sc_sample_data = sampleData\<rparr>), c2)"
    by (simp add: get_dataset_schema_def Let_def info meta sample)
  have absent: "find (\<lambda>ds. ds_id ds = arg_dataset_id args) xs = None
                 \<longleftrightarrow> arg_dataset_id args \<notin> ds_id ` set xs" for xs :: "dataset list"
    by (force simp: find_None_iff image_iff)
  have tool: "call_tool w idx c ''get_dataset_schema'' args =
           (\<lparr>content = Schema
              \<lparr>sc_dataset_id = arg_dataset_id args, sc_source = arg_source args,
               sc_info =
                 (case find (\<lambda>ds. ds_id ds = arg_dataset_id args)
                         (if arg_source args = Some ''opendosm'' then opendosm idx
                          else data_catalogue idx) of
                    Some d \<Rightarrow> Indexed d
                  | None \<Rightarrow> Minimal (arg_dataset_id args) ''Unknown''),
               sc_metadata = metadata, sc_sample_data = sampleData\<rparr>,
             isError = False\<rparr>, c2)"
    by (simp add: call_tool_def handle_tool_def whole)
  show ?thesis
    using whole absent build_params_meta build_params_sample tool by blast
qed

theorem schema_composes_three_parts_witness:
  "(arg_source (id_args ''fuelprice'' (Some ''data_catalogue'')) = Some ''opendosm''
     \<or> arg_source (id_args ''fuelprice'' (Some ''data_catalogue'')) = Some ''data_catalogue'')
   \<and> queryDataCatalogue serving_world new_client ''fuelprice''
        (no_options\<lparr>metaOnly := Some True\<rparr>) =
       (Inr (JObj [(''frequency'', JStr ''WEEKLY'')]),
        \<lparr>abortController = True,
         requests = [''https://api.data.gov.my/data-catalogue?id=fuelprice&meta_only=true'']\<rparr>)
   \<and> queryDataCatalogue serving_world
        \<lparr>abortController = True,
         requests = [''https://api.data.gov.my/data-catalogue?id=fuelprice&meta_only=true'']\<rparr>
        ''fuelprice'' (no_options\<lparr>limit := Some (Integer 3)\<rparr>) =
       (Inr (JArr [JObj [(''ron95'', JNum (Integer 2))]]),
        \<lparr>abortController = True,
         requests = [''https://api.data.gov.my/data-catalogue?id=fuelprice&meta_only=true'',
                     ''https://api.data.gov.my/data-catalogue?id=fuelprice&limit=3&offset=0'']\<rparr>)
   \<and> get_dataset_schema serving_world cpi_index new_client
         (id_args ''fuelprice'' (Some ''data_catalogue'')) =
       (Inr (Schema
          \<lparr>sc_dataset_id = ''fuelprice'', sc_source = Some ''data_catalogue'',
           sc_info = Minimal ''fuelprice'' ''Unknown'',
           sc_metadata = JObj [(''frequency'', JStr ''WEEKLY'')],
           sc_sample_data = JArr [JObj [(''ron95'', JNum (Integer 2))]]\<rparr>),
        \<lparr>abortController = True,
         requests = [''https://api.data.gov.my/data-catalogue?id=fuelprice&meta_only=true'',
                     ''https://api.data.gov.my/data-catalogue?id=fuelprice&limit=3&offset=0'']\<rparr>)"
proof -
  let ?args = "id_args ''fuelprice'' (Some ''data_catalogue'')"
  let ?c1 = "\<lparr>abortController = True,
         requests = [''https://api.data.gov.my/data-catalogue?id=fuelprice&meta_only=true'']\<rparr>"
  let ?c2 = "\<lparr>abortController = True,
         requests = [''https://api.data.gov.my/data-catalogue?id=fuelprice&meta_only=true'',
                     ''https://api.data.gov.my/data-catalogue?id=fuelprice&limit=3&offset=0'']\<rparr>"
  have src: "arg_source ?args = Some ''data_catalogue''" by code_simp
  have i: "arg_dataset_id ?args = ''fuelprice''" by code_simp
  have neq: "Some ''data_catalogue'' \<noteq> Some ''opendosm''" by simp
  have dc: "data_catalogue cpi_index = []" by code_simp
  have h1: "arg_source ?args = Some ''opendosm'' \<or> arg_source ?args = Some ''data_catalogue''"
    using src by simp
  have m: "queryDataCatalogue serving_world new_client ''fuelprice''
        (no_options\<lparr>metaOnly := Some True\<rparr>) =
       (Inr (JObj [(''frequency'', JStr ''WEEKLY'')]), ?c1)"
    by code_simp
  have s: "queryDataCatalogue serving_world ?c1 ''fuelprice''
        (no_options\<lparr>limit := Some (Integer 3)\<rparr>) =
       (Inr (JArr [JObj [(''ron95'', JNum (Integer 2))]]), ?c2)"
    by code_simp
  have h2: "(if arg_source ?args = Some ''opendosm'' then queryOpenDOSM else queryDataCatalogue)
           serving_world new_client (arg_dataset_id ?args)
           (no_options\<lparr>metaOnly := Some True\<rparr>)
         = (Inr (JObj [(''frequency'', JStr ''WEEKLY'')]), ?c1)"
    unfolding src i using m by simp
  have h3: "(if arg_source ?args = Some ''opendosm'' then queryOpenDOSM else queryDataCatalogue)
           serving_world ?c1 (arg_dataset_id ?args) (no_options\<lparr>limit := Some (Integer 3)\<rparr>)
         = (Inr (JArr [JObj [(''ron95'', JNum (Integer 2))]]), ?c2)"
    unfolding src i using s by simp
  have "get_dataset_schema serving_world cpi_index new_client ?args =
       (Inr (Schema
          \<lparr>sc_dataset_id = ''fuelprice'', sc_source = Some ''data_catalogue'',
           sc_info = Minimal ''fuelprice'' ''Unknown'',
           sc_metadata = JObj [(''frequency'', JStr ''WEEKLY'')],
           sc_sample_data = JArr [JObj [(''ron95'', JNum (Integer 2))]]\<rparr>), ?c2)"
    using schema_composes_three_parts [OF h1 h2 h3, of cpi_index]
    unfolding src i by (simp add: dc)
  with h1 m s show ?thesis by blast
qed


section \<open>Claims about the order of the sources and the empty query\<close>

text \<open>
  C9. With no source filter (none given, or the empty string) the candidate sequence of
  both tools is every \<open>opendosm\<close> record, tagged, followed by every \<open>data_catalogue\<close>
  record, tagged. So in the list output, with or without a category filter, no
  \<open>data_catalogue\<close> record stands before an \<open>opendosm\<close> record; and in the search
  output no \<open>data_catalogue\<close> record stands before an \<open>opendosm\<close> record of the same
  score. Every record returned carries one of the two tags.
\<close>

theorem opendosm_before_data_catalogue:
  assumes "\<not> truthy (arg_source args)"
  shows "collect idx (arg_source args) =
           map (tag ''opendosm'') (opendosm idx) @ map (tag ''data_catalogue'') (data_catalogue idx)
       \<and> (\<forall>i j. i < j \<and> j < length (lr_datasets (list_datasets rt idx args)) \<longrightarrow>
             \<not> (source (lr_datasets (list_datasets rt idx args) ! i) = ''data_catalogue''
                \<and> source (lr_datasets (list_datasets rt idx args) ! j) = ''opendosm''))
       \<and> (\<forall>i j. i < j \<and> j < length (sr_datasets (search_datasets rt idx args))
               \<and> score_of rt (toLowerCase rt (arg_query args))
                    (sr_datasets (search_datasets rt idx args) ! i)
                 = score_of rt (toLowerCase rt (arg_query args))
                    (sr_datasets (search_datasets rt idx args) ! j) \<longrightarrow>
             \<not> (source (sr_datasets (search_datasets rt idx args) ! i) = ''data_catalogue''
                \<and> source (sr_datasets (search_datasets rt idx args) ! j) = ''opendosm''))
       \<and> (\<forall>d \<in> set (lr_datasets (list_datasets rt idx args)) \<union>
                 set (sr_datasets (search_datasets rt idx args)).
             source d = ''opendosm'' \<or> source d = ''data_catalogue'')"
proof -
  have cands: "collect idx (arg_source args) =
           map (tag ''opendosm'') (opendosm idx) @ map (tag ''data_catalogue'') (data_catalogue idx)"
    using assms by (rule collect_unfiltered)
  have listing: "\<not> (source (lr_datasets (list_datasets rt idx args) ! i) = ''data_catalogue''
                \<and> source (lr_datasets (list_datasets rt idx args) ! j) = ''opendosm'')"
    if "i < j \<and> j < length (lr_datasets (list_datasets rt idx args))" for i j
    using list_in_order [of rt idx args] that
    by (auto simp: sorted_wrt_iff_nth_less misplaced_def)
  have searching: "\<not> (source (sr_datasets (search_datasets rt idx args) ! i) = ''data_catalogue''
                \<and> source (sr_datasets (search_datasets rt idx args) ! j) = ''opendosm'')"
    if "i < j \<and> j < length (sr_datasets (search_datasets rt idx args))
        \<and> score_of rt (toLowerCase rt (arg_query args)) (sr_datasets (search_datasets rt idx args) ! i)
          = score_of rt (toLowerCase rt (arg_query args)) (sr_datasets (search_datasets rt idx args) ! j)"
    for i j
    using search_in_order [of rt args idx] that
    by (auto simp: sorted_wrt_iff_nth_less misplaced_def)
  have src: "source d = ''opendosm'' \<or> source d = ''data_catalogue''"
    if "d \<in> set (collect idx (arg_source args))" for d
    using that unfolding cands by (auto simp: source_tag)
  have l_sub: "set (lr_datasets (list_datasets rt idx args)) \<subseteq> set (collect idx (arg_source args))"
  proof -
    have "set (lr_datasets (list_datasets rt idx args))
            \<subseteq> set (filter_category rt (arg_category args) (collect idx (arg_source args)))"
      using set_take_subset set_drop_subset
      by (fastforce simp: list_datasets_def Let_def slice_take_drop)
    also have "\<dots> \<subseteq> set (collect idx (arg_source args))"
      by (auto simp: filter_category_def split: option.splits)
    finally show ?thesis .
  qed
  have s_sub: "set (sr_datasets (search_datasets rt idx args)) \<subseteq> set (collect idx (arg_source args))"
  proof -
    have "set (sr_datasets (search_datasets rt idx args)) \<subseteq> set (ranked rt idx args)"
      unfolding search_datasets_take by (rule set_take_subset)
    then show ?thesis by (auto simp: set_ranked)
  qed
  have tagged: "\<forall>d \<in> set (lr_datasets (list_datasets rt idx args)) \<union>
                 set (sr_datasets (search_datasets rt idx args)).
             source d = ''opendosm'' \<or> source d = ''data_catalogue''"
    using src l_sub s_sub by blast
  show ?thesis
    using cands listing searching tagged by blast
qed

theorem opendosm_before_data_catalogue_witness:
  "\<not> truthy (arg_source (search_args ''gdp'' None None))
   \<and> collect gdp_index (arg_source (search_args ''gdp'' None None)) =
       map (tag ''opendosm'') [gdp_qtr, gdp] @ map (tag ''data_catalogue'') [gdp_qtr]
   \<and> sr_datasets (search_datasets node gdp_index (search_args ''gdp'' None None)) =
       [tag ''opendosm'' gdp, tag ''opendosm'' gdp_qtr, tag ''data_catalogue'' gdp_qtr]
   \<and> score_of node (toLowerCase node ''gdp'') (tag ''opendosm'' gdp_qtr)
       = score_of node (toLowerCase node ''gdp'') (tag ''data_catalogue'' gdp_qtr)
   \<and> \<not> (source (sr_datasets (search_datasets node gdp_index (search_args ''gdp'' None None)) ! 1)
           = ''data_catalogue''
         \<and> source (sr_datasets (search_datasets node gdp_index (search_args ''gdp'' None None)) ! 2)
           = ''opendosm'')"
proof -
  let ?args = "search_args ''gdp'' None None"
  let ?res = "sr_datasets (search_datasets node gdp_index ?args)"
  have h: "\<not> truthy (arg_source ?args)" by code_simp
  have od: "opendosm gdp_index = [gdp_qtr, gdp]" by code_simp
  have dc: "data_catalogue gdp_index = [gdp_qtr]" by code_simp
  have res: "?res = [tag ''opendosm'' gdp, tag ''opendosm'' gdp_qtr, tag ''data_catalogue'' gdp_qtr]"
    by code_simp
  have tie: "score_of node (toLowerCase node ''gdp'') (tag ''opendosm'' gdp_qtr)
       = score_of node (toLowerCase node ''gdp'') (tag ''data_catalogue'' gdp_qtr)"
    by code_simp
  have q: "arg_query ?args = ''gdp''" by code_simp
  have tie': "score_of node (toLowerCase node (arg_query ?args)) (?res ! 1)
                = score_of node (toLowerCase node (arg_query ?args)) (?res ! 2)"
    unfolding q res using tie by simp
  have len: "(1::nat) < 2 \<and> 2 < length ?res"
    unfolding res by simp
  note ordered = opendosm_before_data_catalogue [OF h, of gdp_index node]
  from ordered have "collect gdp_index (arg_source ?args) =
       map (tag ''opendosm'') [gdp_qtr, gdp] @ map (tag ''data_catalogue'') [gdp_qtr]"
    unfolding od dc by blast
  moreover from ordered len tie' have "\<not> (source (?res ! 1) = ''data_catalogue''
         \<and> source (?res ! 2) = ''opendosm'')"
    by blast
  ultimately show ?thesis
    using h res tie by blast
qed


text \<open>
  C10 (amended in its last part). For the empty query every candidate scores more than
  0, so the search loop keeps every candidate and the ranking holds each of them,
  whatever the limit. With \<open>l\<close> the limit cut to an integer (a missing limit is 10) and
  \<open>n\<close> the number of records of the selected sources, the search returns \<open>min l n\<close>
  records when \<open>l\<close> is not negative, and \<open>n - (-l)\<close> records, or none if that is
  negative, when \<open>l\<close> is negative; all \<open>n\<close> or none for an infinite limit.
\<close>

theorem empty_query_matches_all:
  assumes "arg_query args = []"
  shows "(\<forall>d \<in> set (collect idx (arg_source args)).
            0 < score_of rt (toLowerCase rt (arg_query args)) d)
       \<and> map snd (scoredDatasets rt idx args) = collect idx (arg_source args)
       \<and> set (ranked rt idx args) = set (collect idx (arg_source args))
       \<and> length (ranked rt idx args) = length (collect idx (arg_source args))
       \<and> sr_count (search_datasets rt idx args)
           = length (sr_datasets (search_datasets rt idx args))
       \<and> (\<forall>l. to_integer rt (or_default (arg_limit args) (Integer 10)) = Finite l \<and> 0 \<le> l \<longrightarrow>
             length (sr_datasets (search_datasets rt idx args)) =
               min (nat l) (length (collect idx (arg_source args)))
             \<and> sr_datasets (search_datasets rt idx args) = take (nat l) (ranked rt idx args))
       \<and> (\<forall>l. to_integer rt (or_default (arg_limit args) (Integer 10)) = Finite l \<and> l < 0 \<longrightarrow>
             length (sr_datasets (search_datasets rt idx args)) =
               length (collect idx (arg_source args)) - nat (- l))
       \<and> (to_integer rt (or_default (arg_limit args) (Integer 10)) = PlusInfinity \<longrightarrow>
             length (sr_datasets (search_datasets rt idx args)) =
               length (collect idx (arg_source args)))
       \<and> (to_integer rt (or_default (arg_limit args) (Integer 10)) = MinusInfinity \<longrightarrow>
             length (sr_datasets (search_datasets rt idx args)) = 0)
       \<and> (\<forall>l. or_default (arg_limit args) (Integer 10) = Integer l
               \<and> - MAX_SAFE_INTEGER \<le> l \<and> l \<le> MAX_SAFE_INTEGER \<longrightarrow>
             to_integer rt (or_default (arg_limit args) (Integer 10)) = Finite l)"
proof -
  let ?cands = "collect idx (arg_source args)"
  let ?lim = "or_default (arg_limit args) (Integer 10)"
  let ?res = "sr_datasets (search_datasets rt idx args)"
  have q: "toLowerCase rt (arg_query args) = []"
    using assms by (simp add: toLowerCase_empty)
  have pos: "0 < score_of rt (toLowerCase rt (arg_query args)) d" for d :: tagged
    unfolding q using score_of_empty_query [of rt d] by linarith
  have scored: "map snd (scoredDatasets rt idx args) = ?cands"
    by (simp add: scoredDatasets_map pos comp_def)
  have len_ranked: "length (ranked rt idx args) = length ?cands"
    unfolding ranked_def length_map length_array_sort
    using arg_cong [OF scored, of length] by simp
  have all: "set (ranked rt idx args) = set ?cands"
    by (simp add: set_ranked pos)
  have res: "?res = take (relative_index (to_integer rt ?lim) (length (ranked rt idx args)))
                      (ranked rt idx args)"
    using search_datasets_take [of rt idx args] by (simp add: search_limit_def)
  have len: "length ?res = relative_index (to_integer rt ?lim) (length ?cands)"
    unfolding res by (simp add: len_ranked relative_index_le)
  have cnt: "sr_count (search_datasets rt idx args) = length ?res"
    by (simp add: search_datasets_def Let_def)
  have nonneg: "length ?res = min (nat l) (length ?cands)
                \<and> ?res = take (nat l) (ranked rt idx args)"
    if "to_integer rt ?lim = Finite l \<and> 0 \<le> l" for l
    using that unfolding len unfolding res
    by (simp add: relative_index_nonneg min_def)
  have neg: "length ?res = length ?cands - nat (- l)"
    if "to_integer rt ?lim = Finite l \<and> l < 0" for l
    using that unfolding len by (simp add: relative_index_neg)
  have pinf: "length ?res = length ?cands" if "to_integer rt ?lim = PlusInfinity"
    using that unfolding len by (simp add: relative_index_def)
  have minf: "length ?res = 0" if "to_integer rt ?lim = MinusInfinity"
    using that unfolding len by (simp add: relative_index_def)
  have int: "to_integer rt ?lim = Finite l"
    if "?lim = Integer l \<and> - MAX_SAFE_INTEGER \<le> l \<and> l \<le> MAX_SAFE_INTEGER" for l
    using that by (simp add: to_integer_safe safe_integer_Integer)
  show ?thesis
    using pos scored all len_ranked cnt nonneg neg pinf minf int by blast
qed

theorem empty_query_matches_all_witness:
  "arg_query (search_args [] None (Some (Integer 2))) = []
   \<and> to_integer node (or_default (arg_limit (search_args [] None (Some (Integer 2))))
       (Integer 10)) = Finite 2
   \<and> length (sr_datasets (search_datasets node gdp_index
        (search_args [] None (Some (Integer 2))))) = 2
   \<and> map snd (scoredDatasets node gdp_index (search_args [] None (Some (Integer 2)))) =
       [tag ''opendosm'' gdp_qtr, tag ''opendosm'' gdp, tag ''data_catalogue'' gdp_qtr]
   \<and> arg_query (search_args [] None (Some (Integer (- 1)))) = []
   \<and> to_integer node (or_default (arg_limit (search_args [] None (Some (Integer (- 1)))))
       (Integer 10)) = Finite (- 1)
   \<and> length (sr_datasets (search_datasets node gdp_index
        (search_args [] None (Some (Integer (- 1)))))) = 2"
proof -
  let ?a = "search_args [] None (Some (Integer 2))"
  let ?b = "search_args [] None (Some (Integer (- 1)))"
  have qa: "arg_query ?a = []" by code_simp
  have qb: "arg_query ?b = []" by code_simp
  have la: "to_integer node (or_default (arg_limit ?a) (Integer 10)) = Finite 2" by code_simp
  have lb: "to_integer node (or_default (arg_limit ?b) (Integer 10)) = Finite (- 1)"
    by code_simp
  have ca: "collect gdp_index (arg_source ?a) =
       [tag ''opendosm'' gdp_qtr, tag ''opendosm'' gdp, tag ''data_catalogue'' gdp_qtr]"
    by code_simp
  have cb: "collect gdp_index (arg_source ?b) =
       [tag ''opendosm'' gdp_qtr, tag ''opendosm'' gdp, tag ''data_catalogue'' gdp_qtr]"
    by code_simp
  note a = empty_query_matches_all [OF qa, of gdp_index node]
  note b = empty_query_matches_all [OF qb, of gdp_index node]
  from a have "to_integer node (or_default (arg_limit ?a) (Integer 10)) = Finite 2
        \<and> (0 :: int) \<le> 2 \<longrightarrow>
      length (sr_datasets (search_datasets node gdp_index ?a)) =
        min (nat 2) (length (collect gdp_index (arg_source ?a)))"
    by blast
  with la have na: "length (sr_datasets (search_datasets node gdp_index ?a)) = 2"
    unfolding ca by simp
  from b have "to_integer node (or_default (arg_limit ?b) (Integer 10)) = Finite (- 1)
        \<and> (- 1 :: int) < 0 \<longrightarrow>
      length (sr_datasets (search_datasets node gdp_index ?b)) =
        length (collect gdp_index (arg_source ?b)) - nat (- (- 1))"
    by blast
  with lb have nb: "length (sr_datasets (search_datasets node gdp_index ?b)) = 2"
    unfolding cb by simp
  from a have "map snd (scoredDatasets node gdp_index ?a) = collect gdp_index (arg_source ?a)"
    by blast
  then have sa: "map snd (scoredDatasets node gdp_index ?a) =
       [tag ''opendosm'' gdp_qtr, tag ''opendosm'' gdp, tag ''data_catalogue'' gdp_qtr]"
    unfolding ca .
  show ?thesis
    using qa la na sa qb lb nb by blast
qed

text \<open>
  C10 as stated, with \<open>min limit n\<close> records for every limit, fails: with three records
  and limit \<open>-1\<close> the search for the empty query returns two records, which is not
  \<open>min (-1) 3\<close>.
\<close>

theorem empty_query_limit_counterexample:
  "arg_query (search_args [] None (Some (Integer (- 1)))) = []
   \<and> length (collect gdp_index (arg_source (search_args [] None (Some (Integer (- 1)))))) = 3
   \<and> or_default (arg_limit (search_args [] None (Some (Integer (- 1))))) (Integer 10)
       = Integer (- 1)
   \<and> sr_count (search_datasets node gdp_index (search_args [] None (Some (Integer (- 1))))) = 2
   \<and> int (sr_count (search_datasets node gdp_index
            (search_args [] None (Some (Integer (- 1))))))
       \<noteq> min (- 1)
             (int (length (collect gdp_index
                (arg_source (search_args [] None (Some (Integer (- 1))))))))"
proof -
  have a: "arg_query (search_args [] None (Some (Integer (- 1)))) = []" by code_simp
  have b: "length (collect gdp_index
             (arg_source (search_args [] None (Some (Integer (- 1)))))) = 3"
    by code_simp
  have c: "or_default (arg_limit (search_args [] None (Some (Integer (- 1))))) (Integer 10)
             = Integer (- 1)"
    by code_simp
  have d: "sr_count (search_datasets node gdp_index
             (search_args [] None (Some (Integer (- 1))))) = 2"
    by code_simp
  show ?thesis unfolding a b c d by simp
qed

end
